theory Spec2Isabelle
  imports Main
begin

section \<open>Data model\<close>

text \<open>
  The handlers of \<^verbatim>\<open>api/event.go\<close> work on the types of the \<^verbatim>\<open>event\<close>,
  \<^verbatim>\<open>permission\<close>, \<^verbatim>\<open>auth\<close> and \<^verbatim>\<open>app\<close> packages. Only the fields the
  handlers read or write, and the fields the data model of the specification names, are kept.
\<close>

text \<open>\<^verbatim>\<open>bson.ObjectId\<close> is a Go string holding the raw bytes of the identifier.\<close>

type_synonym ObjectId = string

text \<open>
  Errors are values: one constructor for each error the handlers build or test for, and
  for each failure of the specification's taxonomy.
\<close>

datatype error =
    HTTP nat string
  | ErrUnauthorized
  | ErrNotCancelable
  | ErrActiveEventBlockNotFound string
  | ErrEventNotFound
  | ErrEventLocked
  | ErrEventBlocked
  | ErrInvalidInput string
  | ErrSyntax string string
  | ErrOther string

text \<open>The status codes of \<^verbatim>\<open>net/http\<close> the handlers use.\<close>

definition StatusNoContent :: nat where
  "StatusNoContent = 204"

definition StatusBadRequest :: nat where
  "StatusBadRequest = 400"

definition StatusNotFound :: nat where
  "StatusNotFound = 404"

text \<open>Permission schemes: the constants of the \<^verbatim>\<open>permission\<close> package the handlers name.\<close>

datatype PermissionScheme =
    PermEventBlockRead
  | PermEventBlockAdd
  | PermEventBlockRemove
  | PermEventBlockReadEvents
  | PermAppDeploy
  | PermNamed string

text \<open>A permission context is a context type and a value.\<close>

type_synonym PermissionContext = "string \<times> string"

type_synonym Permission = "PermissionScheme \<times> PermissionContext"

record AllowedPermission =
  Scheme :: string
  Contexts :: "PermissionContext list"

record Target =
  Target_Type :: string
  Target_Value :: string

record Kind =
  Kind_Type :: string
  Kind_Name :: string

text \<open>\<^verbatim>\<open>bson.Raw\<close>: a kind byte and the encoded bytes.\<close>

record Raw =
  Raw_Kind :: nat
  Data :: "nat list"

record CancelInfo =
  Asked :: bool
  Cancel_Reason :: string
  Cancel_Owner :: string
  Cancel_StartTime :: nat
  Canceled :: bool

record Event =
  UniqueID :: ObjectId
  Target :: Target
  Kind :: Kind
  Owner :: string
  StartTime :: nat
  EndTime :: "nat option"
  Event_Error :: "string option"
  StartCustomData :: Raw
  Allowed :: AllowedPermission
  AllowedCancel :: AllowedPermission
  Cancel :: "CancelInfo option"

record Block =
  Block_ID :: ObjectId
  KindName :: string
  OwnerName :: string
  Block_Target :: Target
  Reason :: string
  Block_StartTime :: nat
  Block_EndTime :: "nat option"

text \<open>An event is running, and a block is active, while its end time is not set.\<close>

definition Running :: "Event \<Rightarrow> bool" where
  "Running e = (EndTime e = None)"

definition Active :: "Block \<Rightarrow> bool" where
  "Active b = (Block_EndTime b = None)"

record Filter =
  Filter_Target :: Target
  KindNames :: "string list"
  Filter_OwnerName :: string
  Since :: "nat option"
  Until :: "nat option"
  Filter_Running :: "bool option"
  Permissions :: "Permission list"

text \<open>
  \<^verbatim>\<open>auth.Token\<close> is an interface; the handlers call \<^verbatim>\<open>GetUserName\<close> and
  \<^verbatim>\<open>Permissions\<close> on it. A token is modelled by what these two methods return.
\<close>

record Token =
  GetUserName :: string
  Token_Permissions :: "error + Permission list"

text \<open>\<^verbatim>\<open>event.Opts\<close>, as the two block handlers fill it.\<close>

type_synonym CustomData = "(string \<times> string) list list"

record Opts =
  Opts_Target :: Target
  Opts_Kind :: PermissionScheme
  Opts_Owner :: Token
  RemoteAddr :: string
  CustomData :: CustomData
  Opts_Allowed :: "PermissionScheme \<times> PermissionContext list"

text \<open>\<^verbatim>\<open>app.DeployOptions\<close>: only the \<^verbatim>\<open>App\<close> pointer is read, \<^verbatim>\<open>nil\<close> is \<open>None\<close>.\<close>

record App =
  App_Name :: string
  App_Env :: "(string \<times> string) list"

record DeployOptions =
  DeployOptions_App :: "App option"
  Image :: string

text \<open>
  The request: the URL query values (the router stores \<^verbatim>\<open>:uuid\<close> there), the form
  and the remote address.
\<close>

record Request =
  URL_Query :: "(string \<times> string) list"
  Form :: "(string \<times> string) list"
  Request_RemoteAddr :: string

text \<open>\<^verbatim>\<open>url.Values.Get\<close>: the first value of the key, the empty string when there is none.\<close>

definition Values_Get :: "(string \<times> string) list \<Rightarrow> string \<Rightarrow> string" where
  "Values_Get vs k = (case map_of vs k of None \<Rightarrow> [] | Some v \<Rightarrow> v)"

text \<open>
  The response writer: the status given to \<^verbatim>\<open>WriteHeader\<close>, the headers added, and the
  value handed to the JSON encoder.
\<close>

datatype Payload =
    Events "Event list"
  | One_Event Event
  | Kinds "Kind list"
  | Blocks "Block list"

record ResponseWriter =
  Status :: "nat option"
  Header :: "(string \<times> string) list"
  Body :: "Payload option"

definition new_response :: ResponseWriter where
  "new_response = \<lparr>Status = None, Header = [], Body = None\<rparr>"

definition WriteHeader :: "nat \<Rightarrow> ResponseWriter \<Rightarrow> ResponseWriter" where
  "WriteHeader code w = w\<lparr>Status := Some code\<rparr>"

definition Header_Add :: "string \<Rightarrow> string \<Rightarrow> ResponseWriter \<Rightarrow> ResponseWriter" where
  "Header_Add k v w = w\<lparr>Header := Header w @ [(k, v)]\<rparr>"

section \<open>The collaborators\<close>

text \<open>
  The shared store of the event engine: the persisted events and blocks, and the clock
  that stamps them.
\<close>

record Store =
  events :: "Event list"
  blocks :: "Block list"
  clock :: nat

text \<open>
  The functions of the \<^verbatim>\<open>event\<close> package the handlers call are defined outside
  \<^verbatim>\<open>api/event.go\<close>. The handlers take them as parameters: every function reads the store,
  and the ones that write return the new store. \<^verbatim>\<open>event.AddBlock\<close> fills the block it
  is given through the pointer, so it returns the block too.
\<close>

record Engine =
  event_List :: "Store \<Rightarrow> Filter \<Rightarrow> error + Event list"
  event_GetKinds :: "Store \<Rightarrow> error + Kind list"
  event_GetByID :: "Store \<Rightarrow> ObjectId \<Rightarrow> error + Event"
  Event_TryCancel :: "Store \<Rightarrow> Event \<Rightarrow> string \<Rightarrow> string \<Rightarrow> error option \<times> Store"
  event_ListBlocks :: "Store \<Rightarrow> bool option \<Rightarrow> error + Block list"
  event_New :: "Store \<Rightarrow> Opts \<Rightarrow> (error + Event) \<times> Store"
  Event_Done :: "Store \<Rightarrow> Event \<Rightarrow> error option \<Rightarrow> Store"
  event_AddBlock :: "Store \<Rightarrow> Block \<Rightarrow> error option \<times> Block \<times> Store"
  event_RemoveBlock :: "Store \<Rightarrow> ObjectId \<Rightarrow> error option \<times> Store"

text \<open>
  The other functions the handlers call and the sources do not hold: the authorization
  predicate, the request parsers of the \<^verbatim>\<open>api\<close> package, the \<^verbatim>\<open>bson\<close>,
  \<^verbatim>\<open>config\<close> and \<^verbatim>\<open>json\<close> libraries, and the methods of \<^verbatim>\<open>event.Filter\<close>,
  \<^verbatim>\<open>app.App\<close> and \<^verbatim>\<open>error\<close>, and the constant
  \<^verbatim>\<open>event.TargetTypeEventBlock\<close>. \<^verbatim>\<open>bson.Marshal\<close> returns its bytes and its
  error together, as the handler assigns both.
\<close>

record Env =
  permission_Check :: "Token \<Rightarrow> PermissionScheme \<Rightarrow> PermissionContext list \<Rightarrow> bool"
  permission_SafeGet :: "string \<Rightarrow> error + PermissionScheme"
  FullName :: "PermissionScheme \<Rightarrow> string"
  Error :: "error \<Rightarrow> string"
  ParseInput_Filter :: "Request \<Rightarrow> error + Filter"
  ParseInput_Block :: "Request \<Rightarrow> error + Block"
  InputValue :: "Request \<Rightarrow> string \<Rightarrow> string"
  InputFields :: "Request \<Rightarrow> (string \<times> string) list"
  FormToCustomData :: "(string \<times> string) list \<Rightarrow> CustomData"
  LoadKindNames :: "Filter \<Rightarrow> (string \<times> string) list \<Rightarrow> Filter"
  PruneUserValues :: "Filter \<Rightarrow> Filter"
  bson_IsObjectIdHex :: "string \<Rightarrow> bool"
  bson_ObjectIdHex :: "string \<Rightarrow> ObjectId"
  ObjectId_Hex :: "ObjectId \<Rightarrow> string"
  bson_Unmarshal :: "nat list \<Rightarrow> error + DeployOptions"
  bson_Marshal :: "DeployOptions \<Rightarrow> nat list \<times> error option"
  config_GetBool :: "string \<Rightarrow> bool \<times> error option"
  App_SuppressSensitiveEnvs :: "App \<Rightarrow> App"
  json_Encode :: "Payload \<Rightarrow> error option"
  TargetTypeEventBlock :: string

text \<open>
  \<^verbatim>\<open>strconv.ParseBool\<close> of the Go standard library: six spellings of true, six of
  false, and for anything else \<^verbatim>\<open>false\<close> together with a syntax error.
\<close>

definition ParseBool :: "string \<Rightarrow> bool \<times> error option" where
  "ParseBool str =
     (if str \<in> set [''1'', ''t'', ''T'', ''true'', ''TRUE'', ''True''] then (True, None)
      else if str \<in> set [''0'', ''f'', ''F'', ''false'', ''FALSE'', ''False''] then (False, None)
      else (False, Some (ErrSyntax ''ParseBool'' str)))"

section \<open>The sensitive-data filter\<close>

text \<open>
  \<^verbatim>\<open>suppressSensitiveEnvs\<close> mutates the event it is given through the pointer; the
  model returns the error and the event after the call.
\<close>

definition suppressSensitiveEnvs :: "Env \<Rightarrow> Event \<Rightarrow> error option \<times> Event" where
  "suppressSensitiveEnvs env e =
     (let supressEnabled = fst (config_GetBool env ''events:suppress-sensitive-envs'') in
      if \<not> supressEnabled then (None, e)
      else if Kind_Name (Kind e) \<noteq> FullName env PermAppDeploy \<or> length (Data (StartCustomData e)) = 0
      then (None, e)
      else
        (case bson_Unmarshal env (Data (StartCustomData e)) of
           Inl err \<Rightarrow> (Some err, e)
         | Inr deployOptions \<Rightarrow>
             (case DeployOptions_App deployOptions of
                None \<Rightarrow> (None, e)
              | Some a \<Rightarrow>
                  (let deployOptions' =
                         deployOptions\<lparr>DeployOptions_App := Some (App_SuppressSensitiveEnvs env a)\<rparr>;
                       (bytes, err) = bson_Marshal env deployOptions';
                       e' = e\<lparr>StartCustomData := (StartCustomData e)\<lparr>Data := bytes\<rparr>\<rparr>
                   in case err of
                        Some x \<Rightarrow> (Some x, e')
                      | None \<Rightarrow> (None, e')))))"

text \<open>The loop of \<^verbatim>\<open>eventList\<close> over the events: it stops at the first error.\<close>

fun suppressAll :: "Env \<Rightarrow> Event list \<Rightarrow> error + Event list" where
  "suppressAll env [] = Inr []"
| "suppressAll env (e # es) =
     (case suppressSensitiveEnvs env e of
        (Some err, _) \<Rightarrow> Inl err
      | (None, e') \<Rightarrow>
          (case suppressAll env es of
             Inl err \<Rightarrow> Inl err
           | Inr es' \<Rightarrow> Inr (e' # es')))"

section \<open>The handlers\<close>

text \<open>
  A handler returns its error (\<open>None\<close> is \<^verbatim>\<open>nil\<close>), the response writer and the
  store as it leaves them, and the calls it made to the event engine and to the
  authorization predicate, in program order, each with what it returned where a handler
  branches on it.
\<close>

datatype Call =
    Call_List Filter "error + Event list"
  | Call_GetKinds "error + Kind list"
  | Call_GetByID ObjectId "error + Event"
  | Call_Check PermissionScheme "PermissionContext list" bool
  | Call_TryCancel Event string string "error option"
  | Call_ListBlocks "bool option" "error + Block list"
  | Call_New Opts "error + Event"
  | Call_AddBlock Block "error option"
  | Call_RemoveBlock ObjectId "error option"
  | Call_Done Event "error option"

record Outcome =
  result :: "error option"
  response :: ResponseWriter
  store :: Store
  calls :: "Call list"

definition eventList :: "Engine \<Rightarrow> Env \<Rightarrow> Store \<Rightarrow> Request \<Rightarrow> Token \<Rightarrow> Outcome" where
  "eventList eng env s r t =
     (case ParseInput_Filter env r of
        Inl err \<Rightarrow> \<lparr>result = Some err, response = new_response, store = s, calls = []\<rparr>
      | Inr filter0 \<Rightarrow>
          (let filter1 = LoadKindNames env filter0 (Form r);
               filter2 = PruneUserValues env filter1
           in case Token_Permissions t of
                Inl err \<Rightarrow> \<lparr>result = Some err, response = new_response, store = s, calls = []\<rparr>
              | Inr perms \<Rightarrow>
                  (let filter3 = filter2\<lparr>Permissions := perms\<rparr>;
                       res = event_List eng s filter3;
                       cs = [Call_List filter3 res]
                   in case res of
                        Inl err \<Rightarrow>
                          \<lparr>result = Some err, response = new_response, store = s, calls = cs\<rparr>
                      | Inr evs \<Rightarrow>
                          if length evs = 0
                          then \<lparr>result = None, response = WriteHeader StatusNoContent new_response,
                                store = s, calls = cs\<rparr>
                          else
                            (case suppressAll env evs of
                               Inl err \<Rightarrow>
                                 \<lparr>result = Some err, response = new_response, store = s, calls = cs\<rparr>
                             | Inr evs' \<Rightarrow>
                                 (let w = Header_Add ''Content-Type'' ''application/json'' new_response
                                  in \<lparr>result = json_Encode env (Events evs'),
                                      response = w\<lparr>Body := Some (Events evs')\<rparr>,
                                      store = s, calls = cs\<rparr>)))))"

definition kindList :: "Engine \<Rightarrow> Env \<Rightarrow> Store \<Rightarrow> Request \<Rightarrow> Token \<Rightarrow> Outcome" where
  "kindList eng env s r t =
     (let res = event_GetKinds eng s;
          cs = [Call_GetKinds res]
      in case res of
           Inl err \<Rightarrow>
             \<lparr>result = Some err, response = new_response, store = s, calls = cs\<rparr>
         | Inr kinds \<Rightarrow>
             if length kinds = 0
             then \<lparr>result = None, response = WriteHeader StatusNoContent new_response,
                   store = s, calls = cs\<rparr>
             else
               (let w = Header_Add ''Content-Type'' ''application/json'' new_response
                in \<lparr>result = json_Encode env (Kinds kinds),
                    response = w\<lparr>Body := Some (Kinds kinds)\<rparr>,
                    store = s, calls = cs\<rparr>))"

definition eventInfo :: "Engine \<Rightarrow> Env \<Rightarrow> Store \<Rightarrow> Request \<Rightarrow> Token \<Rightarrow> Outcome" where
  "eventInfo eng env s r t =
     (let uuid = Values_Get (URL_Query r) '':uuid''
      in if \<not> bson_IsObjectIdHex env uuid
         then \<lparr>result = Some (HTTP StatusBadRequest (''uuid parameter is not ObjectId: '' @ uuid)),
               response = new_response, store = s, calls = []\<rparr>
         else
           (let objID = bson_ObjectIdHex env uuid;
                res = event_GetByID eng s objID;
                cs = [Call_GetByID objID res]
            in case res of
                 Inl err \<Rightarrow>
                   \<lparr>result = Some (HTTP StatusNotFound (Error env err)),
                    response = new_response, store = s, calls = cs\<rparr>
               | Inr e \<Rightarrow>
                   (case permission_SafeGet env (Scheme (Allowed e)) of
                      Inl err \<Rightarrow>
                        \<lparr>result = Some err, response = new_response, store = s, calls = cs\<rparr>
                    | Inr scheme \<Rightarrow>
                        (let allowed = permission_Check env t scheme (Contexts (Allowed e));
                             cs' = cs @ [Call_Check scheme (Contexts (Allowed e)) allowed]
                         in if \<not> allowed
                            then \<lparr>result = Some ErrUnauthorized, response = new_response,
                                  store = s, calls = cs'\<rparr>
                            else
                              (let w = Header_Add ''Content-Type'' ''application/json'' new_response
                               in case suppressSensitiveEnvs env e of
                                    (Some err, _) \<Rightarrow>
                                      \<lparr>result = Some err, response = w, store = s, calls = cs'\<rparr>
                                  | (None, e') \<Rightarrow>
                                      \<lparr>result = json_Encode env (One_Event e'),
                                       response = w\<lparr>Body := Some (One_Event e')\<rparr>,
                                       store = s, calls = cs'\<rparr>)))))"

definition eventCancel :: "Engine \<Rightarrow> Env \<Rightarrow> Store \<Rightarrow> Request \<Rightarrow> Token \<Rightarrow> Outcome" where
  "eventCancel eng env s r t =
     (let uuid = Values_Get (URL_Query r) '':uuid''
      in if \<not> bson_IsObjectIdHex env uuid
         then \<lparr>result = Some (HTTP StatusBadRequest (''uuid parameter is not ObjectId: '' @ uuid)),
               response = new_response, store = s, calls = []\<rparr>
         else
           (let objID = bson_ObjectIdHex env uuid;
                res = event_GetByID eng s objID;
                cs = [Call_GetByID objID res]
            in case res of
                 Inl err \<Rightarrow>
                   \<lparr>result = Some (HTTP StatusNotFound (Error env err)),
                    response = new_response, store = s, calls = cs\<rparr>
               | Inr e \<Rightarrow>
                   (let reason = InputValue env r ''reason''
                    in if reason = []
                       then \<lparr>result = Some (HTTP StatusBadRequest ''reason is mandatory''),
                             response = new_response, store = s, calls = cs\<rparr>
                       else
                         (case permission_SafeGet env (Scheme (AllowedCancel e)) of
                            Inl err \<Rightarrow>
                              \<lparr>result = Some err, response = new_response, store = s, calls = cs\<rparr>
                          | Inr scheme \<Rightarrow>
                              (let allowed =
                                     permission_Check env t scheme (Contexts (AllowedCancel e));
                                   cs' = cs @ [Call_Check scheme (Contexts (AllowedCancel e)) allowed]
                               in if \<not> allowed
                                  then \<lparr>result = Some ErrUnauthorized, response = new_response,
                                        store = s, calls = cs'\<rparr>
                                  else
                                    (let (err, s') = Event_TryCancel eng s e reason (GetUserName t);
                                         cs'' = cs' @ [Call_TryCancel e reason (GetUserName t) err]
                                     in case err of
                                          Some x \<Rightarrow>
                                            if x = ErrNotCancelable
                                            then \<lparr>result = Some (HTTP StatusBadRequest (Error env x)),
                                                  response = new_response, store = s', calls = cs''\<rparr>
                                            else \<lparr>result = Some x, response = new_response,
                                                  store = s', calls = cs''\<rparr>
                                        | None \<Rightarrow>
                                            \<lparr>result = None,
                                             response = WriteHeader StatusNoContent new_response,
                                             store = s', calls = cs''\<rparr>))))))"

definition eventBlockList :: "Engine \<Rightarrow> Env \<Rightarrow> Store \<Rightarrow> Request \<Rightarrow> Token \<Rightarrow> Outcome" where
  "eventBlockList eng env s r t =
     (let allowed = permission_Check env t PermEventBlockRead [];
          cs = [Call_Check PermEventBlockRead [] allowed]
      in if \<not> allowed
         then \<lparr>result = Some ErrUnauthorized, response = new_response, store = s, calls = cs\<rparr>
         else
           (let activeStr = InputValue env r ''active'';
                active = (if activeStr \<noteq> [] then Some (fst (ParseBool activeStr)) else None);
                res = event_ListBlocks eng s active;
                cs' = cs @ [Call_ListBlocks active res]
            in case res of
                 Inl err \<Rightarrow>
                   \<lparr>result = Some err, response = new_response, store = s, calls = cs'\<rparr>
               | Inr bs \<Rightarrow>
                   if length bs = 0
                   then \<lparr>result = None, response = WriteHeader StatusNoContent new_response,
                         store = s, calls = cs'\<rparr>
                   else
                     (let w = Header_Add ''Content-Type'' ''application/json'' new_response
                      in \<lparr>result = json_Encode env (Blocks bs),
                          response = w\<lparr>Body := Some (Blocks bs)\<rparr>,
                          store = s, calls = cs'\<rparr>)))"

text \<open>
  In the two handlers below the result is the named result \<^verbatim>\<open>err\<close>, and the deferred
  function runs after it is set: \<^verbatim>\<open>evt.Done\<close> receives the error the handler returns,
  and what \<^verbatim>\<open>Done\<close> itself returns is dropped.
\<close>

definition eventBlockAdd :: "Engine \<Rightarrow> Env \<Rightarrow> Store \<Rightarrow> Request \<Rightarrow> Token \<Rightarrow> Outcome" where
  "eventBlockAdd eng env s r t =
     (let allowed = permission_Check env t PermEventBlockAdd [];
          cs = [Call_Check PermEventBlockAdd [] allowed]
      in if \<not> allowed
         then \<lparr>result = Some ErrUnauthorized, response = new_response, store = s, calls = cs\<rparr>
         else
           (case ParseInput_Block env r of
              Inl err \<Rightarrow> \<lparr>result = Some err, response = new_response, store = s, calls = cs\<rparr>
            | Inr block \<Rightarrow>
                if Reason block = []
                then \<lparr>result = Some (HTTP StatusBadRequest ''reason is required''),
                      response = new_response, store = s, calls = cs\<rparr>
                else
                  (let opts = \<lparr>Opts_Target = \<lparr>Target_Type = TargetTypeEventBlock env,
                                               Target_Value = []\<rparr>,
                               Opts_Kind = PermEventBlockAdd,
                               Opts_Owner = t,
                               RemoteAddr = Request_RemoteAddr r,
                               CustomData = FormToCustomData env (InputFields env r),
                               Opts_Allowed = (PermEventBlockReadEvents, [])\<rparr>;
                       (res, s1) = event_New eng s opts;
                       cs1 = cs @ [Call_New opts res]
                   in case res of
                        Inl err \<Rightarrow>
                          \<lparr>result = Some err, response = new_response, store = s1, calls = cs1\<rparr>
                      | Inr evt \<Rightarrow>
                          (let (err, block', s2) = event_AddBlock eng s1 block;
                               evt' = evt\<lparr>Target := (Target evt)
                                              \<lparr>Target_Value := ObjectId_Hex env (Block_ID block')\<rparr>\<rparr>;
                               s3 = Event_Done eng s2 evt' err
                           in \<lparr>result = err, response = new_response, store = s3,
                               calls = cs1 @ [Call_AddBlock block err, Call_Done evt' err]\<rparr>))))"

definition eventBlockRemove :: "Engine \<Rightarrow> Env \<Rightarrow> Store \<Rightarrow> Request \<Rightarrow> Token \<Rightarrow> Outcome" where
  "eventBlockRemove eng env s r t =
     (let allowed = permission_Check env t PermEventBlockRemove [];
          cs = [Call_Check PermEventBlockRemove [] allowed]
      in if \<not> allowed
         then \<lparr>result = Some ErrUnauthorized, response = new_response, store = s, calls = cs\<rparr>
         else
           (let uuid = Values_Get (URL_Query r) '':uuid''
            in if \<not> bson_IsObjectIdHex env uuid
               then \<lparr>result = Some (HTTP StatusBadRequest
                                        (''uuid parameter is not ObjectId: '' @ uuid)),
                     response = new_response, store = s, calls = cs\<rparr>
               else
                 (let objID = bson_ObjectIdHex env uuid;
                      opts = \<lparr>Opts_Target = \<lparr>Target_Type = TargetTypeEventBlock env,
                                              Target_Value = ObjectId_Hex env objID\<rparr>,
                              Opts_Kind = PermEventBlockRemove,
                              Opts_Owner = t,
                              RemoteAddr = Request_RemoteAddr r,
                              CustomData = [[(''name'', ''ID''), (''value'', ObjectId_Hex env objID)]],
                              Opts_Allowed = (PermEventBlockReadEvents, [])\<rparr>;
                      (res, s1) = event_New eng s opts;
                      cs1 = cs @ [Call_New opts res]
                  in case res of
                       Inl err \<Rightarrow>
                         \<lparr>result = Some err, response = new_response, store = s1, calls = cs1\<rparr>
                     | Inr evt \<Rightarrow>
                         (let (err, s2) = event_RemoveBlock eng s1 objID;
                              ret = (case err of
                                       Some (ErrActiveEventBlockNotFound x) \<Rightarrow>
                                         Some (HTTP StatusNotFound
                                                 (Error env (ErrActiveEventBlockNotFound x)))
                                     | _ \<Rightarrow> err);
                              s3 = Event_Done eng s2 evt ret
                          in \<lparr>result = ret, response = new_response, store = s3,
                              calls = cs1 @ [Call_RemoveBlock objID err, Call_Done evt ret]\<rparr>))))"

section \<open>The event engine, from the specification\<close>

text \<open>
  The \<^verbatim>\<open>event\<close> package is described by the specification only. The definitions of
  this section follow its contracts, on the store above; the handlers do not depend on
  them.
\<close>

text \<open>
  Modelled from the spec: \<^verbatim>\<open>event.GetByID\<close> is missing; section 4.4 gives
  \<^verbatim>\<open>GetByID(id) -> Event | NotFound\<close>.
\<close>

definition spec_GetByID :: "Store \<Rightarrow> ObjectId \<Rightarrow> error + Event" where
  "spec_GetByID s i =
     (case find (\<lambda>e. UniqueID e = i) (events s) of
        None \<Rightarrow> Inl ErrEventNotFound
      | Some e \<Rightarrow> Inr e)"

text \<open>
  Modelled from the spec: \<^verbatim>\<open>event.GetKinds\<close> is missing; section 4.4 gives the set of
  all distinct Kind values ever recorded, with no permission filtering.
\<close>

definition spec_GetKinds :: "Store \<Rightarrow> error + Kind list" where
  "spec_GetKinds s = Inr (remdups (map Kind (events s)))"

text \<open>
  Modelled from the spec: the predicates of \<^verbatim>\<open>event.Filter\<close> are missing; section 3
  lists target, kind, owner, time range and running, and section 4.4 applies the
  non-empty ones as a conjunction.
\<close>

definition Filter_matches :: "Filter \<Rightarrow> Event \<Rightarrow> bool" where
  "Filter_matches f e =
     ((Target_Type (Filter_Target f) = [] \<or> Target_Type (Filter_Target f) = Target_Type (Target e)) \<and>
      (Target_Value (Filter_Target f) = [] \<or> Target_Value (Filter_Target f) = Target_Value (Target e)) \<and>
      (KindNames f = [] \<or> Kind_Name (Kind e) \<in> set (KindNames f)) \<and>
      (Filter_OwnerName f = [] \<or> Filter_OwnerName f = Owner e) \<and>
      (case Since f of None \<Rightarrow> True | Some n \<Rightarrow> n \<le> StartTime e) \<and>
      (case Until f of None \<Rightarrow> True | Some n \<Rightarrow> StartTime e \<le> n) \<and>
      (case Filter_Running f of None \<Rightarrow> True | Some b \<Rightarrow> Running e = b))"

text \<open>
  Modelled from the spec: \<^verbatim>\<open>event.List\<close> is missing; section 4.4 applies the filter
  predicates, restricts the result to the events whose Allowed descriptor is satisfied by
  the filter's permission context, orders by StartTime descending, and returns the empty
  sequence, not an error, when nothing matches. Whether a permission context satisfies a
  descriptor is the authorization collaborator's decision, the parameter \<open>satisfied\<close>.
\<close>

definition spec_List ::
  "(Permission list \<Rightarrow> AllowedPermission \<Rightarrow> bool) \<Rightarrow> Store \<Rightarrow> Filter \<Rightarrow> error + Event list" where
  "spec_List satisfied s f =
     Inr (rev (sort_key StartTime
            (filter (\<lambda>e. Filter_matches f e \<and> satisfied (Permissions f) (Allowed e)) (events s))))"

text \<open>
  Modelled from the spec: \<^verbatim>\<open>Event.TryCancel\<close> is missing; section 4.3 permits the
  request only on a running event with no pending CancelInfo, fails with NotCancelable
  otherwise, and on success writes the CancelInfo onto the stored record.
\<close>

definition spec_TryCancel :: "Store \<Rightarrow> Event \<Rightarrow> string \<Rightarrow> string \<Rightarrow> error option \<times> Store" where
  "spec_TryCancel s e reason requestedBy =
     (case find (\<lambda>e0. UniqueID e0 = UniqueID e) (events s) of
        None \<Rightarrow> (Some ErrNotCancelable, s)
      | Some e0 \<Rightarrow>
          if Running e0 \<and> Cancel e0 = None
          then (None,
                s\<lparr>events :=
                     map (\<lambda>x. if UniqueID x = UniqueID e
                               then x\<lparr>Cancel := Some \<lparr>Asked = True, Cancel_Reason = reason,
                                                       Cancel_Owner = requestedBy,
                                                       Cancel_StartTime = clock s,
                                                       Canceled = False\<rparr>\<rparr>
                               else x) (events s)\<rparr>)
          else (Some ErrNotCancelable, s))"

text \<open>
  Modelled from the spec: \<^verbatim>\<open>event.ListBlocks\<close> is missing; section 4.2 returns all
  blocks, optionally restricted to the active or to the inactive ones, most recent first.
\<close>

definition spec_ListBlocks :: "Store \<Rightarrow> bool option \<Rightarrow> error + Block list" where
  "spec_ListBlocks s active =
     Inr (rev (sort_key Block_StartTime
            (filter (\<lambda>b. case active of None \<Rightarrow> True | Some a \<Rightarrow> Active b = a) (blocks s))))"

text \<open>
  Modelled from the spec: the identity of an event or a block is a unique handle
  assigned at creation; the model takes it from the clock, which every creation advances.
\<close>

definition fresh_id :: "Store \<Rightarrow> ObjectId" where
  "fresh_id s = replicate 12 (char_of (clock s))"

text \<open>
  Modelled from the spec: \<^verbatim>\<open>event.AddBlock\<close> is missing; section 4.2 validates that
  Reason is non-empty, fails with InvalidInput otherwise, and persists the block as active.
\<close>

definition spec_AddBlock :: "Store \<Rightarrow> Block \<Rightarrow> error option \<times> Block \<times> Store" where
  "spec_AddBlock s b =
     (if Reason b = [] then (Some (ErrInvalidInput ''reason is required''), b, s)
      else
        (let b' = b\<lparr>Block_ID := fresh_id s, Block_StartTime := clock s, Block_EndTime := None\<rparr>
         in (None, b', s\<lparr>blocks := blocks s @ [b'], clock := Suc (clock s)\<rparr>)))"

text \<open>
  Modelled from the spec: \<^verbatim>\<open>event.RemoveBlock\<close> is missing; section 4.2 finds an
  active block with the identity, fails with ActiveBlockNotFound when there is none, and
  otherwise sets its EndTime to now.
\<close>

definition spec_RemoveBlock :: "Store \<Rightarrow> ObjectId \<Rightarrow> error option \<times> Store" where
  "spec_RemoveBlock s i =
     (case find (\<lambda>b. Block_ID b = i \<and> Active b) (blocks s) of
        None \<Rightarrow> (Some (ErrActiveEventBlockNotFound i), s)
      | Some _ \<Rightarrow>
          (None,
           s\<lparr>blocks := map (\<lambda>b. if Block_ID b = i \<and> Active b
                                 then b\<lparr>Block_EndTime := Some (clock s)\<rparr> else b) (blocks s),
             clock := Suc (clock s)\<rparr>))"

text \<open>
  Modelled from the spec: the matching of a block is missing; by section 4.2 a field
  matches when the block's pattern is empty or equal to the candidate's value, and a block
  matches when its four fields do.
\<close>

definition Block_matches :: "Block \<Rightarrow> string \<Rightarrow> string \<Rightarrow> Target \<Rightarrow> bool" where
  "Block_matches b kind owner target =
     ((KindName b = [] \<or> KindName b = kind) \<and>
      (OwnerName b = [] \<or> OwnerName b = owner) \<and>
      (Target_Type (Block_Target b) = [] \<or> Target_Type (Block_Target b) = Target_Type target) \<and>
      (Target_Value (Block_Target b) = [] \<or> Target_Value (Block_Target b) = Target_Value target))"

text \<open>
  Modelled from the spec: \<^verbatim>\<open>event.New\<close> is missing; by section 4.1 it fails with
  Blocked when an active block matches, with Locked when the target has a running event,
  and otherwise persists the new running event and returns it. The name of the kind and
  the encoding of the custom data are parameters.
\<close>

definition spec_New ::
  "(PermissionScheme \<Rightarrow> string) \<Rightarrow> (CustomData \<Rightarrow> Raw) \<Rightarrow> Store \<Rightarrow> Opts \<Rightarrow> (error + Event) \<times> Store" where
  "spec_New name encode s opts =
     (if list_ex (\<lambda>b. Active b \<and>
                      Block_matches b (name (Opts_Kind opts)) (GetUserName (Opts_Owner opts))
                        (Opts_Target opts)) (blocks s)
      then (Inl ErrEventBlocked, s)
      else if list_ex (\<lambda>e. Running e \<and> Target e = Opts_Target opts) (events s)
      then (Inl ErrEventLocked, s)
      else
        (let evt = \<lparr>UniqueID = fresh_id s,
                    Target = Opts_Target opts,
                    Kind = \<lparr>Kind_Type = ''permission'', Kind_Name = name (Opts_Kind opts)\<rparr>,
                    Owner = GetUserName (Opts_Owner opts),
                    StartTime = clock s,
                    EndTime = None,
                    Event_Error = None,
                    StartCustomData = encode (CustomData opts),
                    Allowed = \<lparr>Scheme = name (fst (Opts_Allowed opts)),
                               Contexts = snd (Opts_Allowed opts)\<rparr>,
                    AllowedCancel = \<lparr>Scheme = [], Contexts = []\<rparr>,
                    Cancel = None\<rparr>
         in (Inr evt, s\<lparr>events := events s @ [evt], clock := Suc (clock s)\<rparr>)))"

text \<open>
  Modelled from the spec: \<^verbatim>\<open>Event.Done\<close> is missing; by section 4.1 the close sets
  EndTime and Error on the stored record, which ends its running state, and keeps the
  record. The target is stored as the handle carries it.
\<close>

definition spec_Done :: "(error \<Rightarrow> string) \<Rightarrow> Store \<Rightarrow> Event \<Rightarrow> error option \<Rightarrow> Store" where
  "spec_Done text s evt err =
     s\<lparr>events := map (\<lambda>x. if UniqueID x = UniqueID evt
                           then x\<lparr>Target := Target evt, EndTime := Some (clock s),
                                  Event_Error := map_option text err\<rparr>
                           else x) (events s),
       clock := Suc (clock s)\<rparr>"

definition spec_engine ::
  "(Permission list \<Rightarrow> AllowedPermission \<Rightarrow> bool) \<Rightarrow> (PermissionScheme \<Rightarrow> string) \<Rightarrow>
   (CustomData \<Rightarrow> Raw) \<Rightarrow> (error \<Rightarrow> string) \<Rightarrow> Engine" where
  "spec_engine satisfied name encode text =
     \<lparr>event_List = spec_List satisfied,
      event_GetKinds = spec_GetKinds,
      event_GetByID = spec_GetByID,
      Event_TryCancel = spec_TryCancel,
      event_ListBlocks = spec_ListBlocks,
      event_New = spec_New name encode,
      Event_Done = spec_Done text,
      event_AddBlock = spec_AddBlock,
      event_RemoveBlock = spec_RemoveBlock\<rparr>"

section \<open>A concrete instance\<close>

text \<open>
  One instance of the parameters, to run the handlers on: permissions are checked against
  the token's own permission list, identifiers are kept in their hexadecimal form, and the
  deploy options are encoded by a table of three documents.
\<close>

definition example_FullName :: "PermissionScheme \<Rightarrow> string" where
  "example_FullName p =
     (case p of
        PermEventBlockRead \<Rightarrow> ''event-block.read''
      | PermEventBlockAdd \<Rightarrow> ''event-block.add''
      | PermEventBlockRemove \<Rightarrow> ''event-block.remove''
      | PermEventBlockReadEvents \<Rightarrow> ''event-block.read.events''
      | PermAppDeploy \<Rightarrow> ''app.deploy''
      | PermNamed n \<Rightarrow> n)"

definition example_SafeGet :: "string \<Rightarrow> error + PermissionScheme" where
  "example_SafeGet n =
     (if n = [] then Inl (ErrOther ''unregistered permission'')
      else if n = ''app.deploy'' then Inr PermAppDeploy
      else Inr (PermNamed n))"

definition check_perms :: "Permission list \<Rightarrow> PermissionScheme \<Rightarrow> PermissionContext list \<Rightarrow> bool" where
  "check_perms ps scheme ctxs =
     list_ex (\<lambda>p. fst p = scheme \<and> (snd p = (''global'', []) \<or> snd p \<in> set ctxs)) ps"

definition example_Check :: "Token \<Rightarrow> PermissionScheme \<Rightarrow> PermissionContext list \<Rightarrow> bool" where
  "example_Check t scheme ctxs =
     (case Token_Permissions t of
        Inl _ \<Rightarrow> False
      | Inr ps \<Rightarrow> check_perms ps scheme ctxs)"

definition example_satisfied :: "Permission list \<Rightarrow> AllowedPermission \<Rightarrow> bool" where
  "example_satisfied ps a =
     (case example_SafeGet (Scheme a) of
        Inl _ \<Rightarrow> False
      | Inr scheme \<Rightarrow> check_perms ps scheme (Contexts a))"

definition example_Error :: "error \<Rightarrow> string" where
  "example_Error e =
     (case e of
        HTTP c m \<Rightarrow> m
      | ErrUnauthorized \<Rightarrow> ''permission denied''
      | ErrNotCancelable \<Rightarrow> ''event is not cancelable''
      | ErrActiveEventBlockNotFound i \<Rightarrow> ''active event block not found''
      | ErrEventNotFound \<Rightarrow> ''event not found''
      | ErrEventLocked \<Rightarrow> ''event locked''
      | ErrEventBlocked \<Rightarrow> ''event blocked''
      | ErrInvalidInput m \<Rightarrow> m
      | ErrSyntax f m \<Rightarrow> ''invalid syntax''
      | ErrOther m \<Rightarrow> m)"

definition example_app :: App where
  "example_app = \<lparr>App_Name = ''myapp'', App_Env = [(''DB_PASSWORD'', ''hunter2'')]\<rparr>"

definition example_Suppress :: "App \<Rightarrow> App" where
  "example_Suppress a = a\<lparr>App_Env := map (\<lambda>kv. (fst kv, ''***'')) (App_Env a)\<rparr>"

definition example_Unmarshal :: "nat list \<Rightarrow> error + DeployOptions" where
  "example_Unmarshal bytes =
     (if bytes = [1] then Inr \<lparr>DeployOptions_App = Some example_app, Image = ''v1''\<rparr>
      else if bytes = [2] then Inr \<lparr>DeployOptions_App = None, Image = ''v1''\<rparr>
      else if bytes = [3] then Inr \<lparr>DeployOptions_App = Some (example_Suppress example_app), Image = ''v1''\<rparr>
      else Inl (ErrOther ''corrupted document''))"

definition example_Marshal :: "DeployOptions \<Rightarrow> nat list \<times> error option" where
  "example_Marshal d =
     (if d = \<lparr>DeployOptions_App = Some example_app, Image = ''v1''\<rparr> then ([1], None)
      else if d = \<lparr>DeployOptions_App = None, Image = ''v1''\<rparr> then ([2], None)
      else if d = \<lparr>DeployOptions_App = Some (example_Suppress example_app), Image = ''v1''\<rparr>
      then ([3], None)
      else ([], Some (ErrOther ''cannot encode'')))"

definition example_block_of :: "Request \<Rightarrow> Block" where
  "example_block_of r =
     \<lparr>Block_ID = [],
      KindName = Values_Get (Form r) ''kindname'',
      OwnerName = Values_Get (Form r) ''ownername'',
      Block_Target = \<lparr>Target_Type = Values_Get (Form r) ''targettype'',
                      Target_Value = Values_Get (Form r) ''targetvalue''\<rparr>,
      Reason = Values_Get (Form r) ''reason'',
      Block_StartTime = 0,
      Block_EndTime = None\<rparr>"

definition example_filter_of :: "Request \<Rightarrow> Filter" where
  "example_filter_of r =
     \<lparr>Filter_Target = \<lparr>Target_Type = Values_Get (Form r) ''targettype'',
                       Target_Value = Values_Get (Form r) ''targetvalue''\<rparr>,
      KindNames = [],
      Filter_OwnerName = Values_Get (Form r) ''ownername'',
      Since = None,
      Until = None,
      Filter_Running = None,
      Permissions = []\<rparr>"

definition example_env :: Env where
  "example_env =
     \<lparr>permission_Check = example_Check,
      permission_SafeGet = example_SafeGet,
      FullName = example_FullName,
      Error = example_Error,
      ParseInput_Filter = (\<lambda>r. Inr (example_filter_of r)),
      ParseInput_Block = (\<lambda>r. Inr (example_block_of r)),
      InputValue = (\<lambda>r k. Values_Get (Form r) k),
      InputFields = Form,
      FormToCustomData = map (\<lambda>kv. [(''name'', fst kv), (''value'', snd kv)]),
      LoadKindNames = (\<lambda>f form. f\<lparr>KindNames := map snd (filter (\<lambda>kv. fst kv = ''kindname'') form)\<rparr>),
      PruneUserValues = (\<lambda>f. f),
      bson_IsObjectIdHex = (\<lambda>u. length u = 24 \<and> list_all (\<lambda>c. c \<in> set ''0123456789abcdef'') u),
      bson_ObjectIdHex = (\<lambda>u. u),
      ObjectId_Hex = (\<lambda>i. i),
      bson_Unmarshal = example_Unmarshal,
      bson_Marshal = example_Marshal,
      config_GetBool = (\<lambda>k. (k = ''events:suppress-sensitive-envs'', None)),
      App_SuppressSensitiveEnvs = example_Suppress,
      json_Encode = (\<lambda>p. None),
      TargetTypeEventBlock = ''event-block''\<rparr>"

definition example_engine :: Engine where
  "example_engine =
     spec_engine example_satisfied example_FullName (\<lambda>c. \<lparr>Raw_Kind = 3, Data = []\<rparr>) example_Error"

text \<open>
  A store with a running deploy of \<^verbatim>\<open>myapp\<close>, a closed deploy of \<^verbatim>\<open>other\<close>,
  and one active block.
\<close>

definition running_event :: Event where
  "running_event =
     \<lparr>UniqueID = ''aaaaaaaaaaaaaaaaaaaaaaaa'',
      Target = \<lparr>Target_Type = ''app'', Target_Value = ''myapp''\<rparr>,
      Kind = \<lparr>Kind_Type = ''permission'', Kind_Name = ''app.deploy''\<rparr>,
      Owner = ''alice'',
      StartTime = 1,
      EndTime = None,
      Event_Error = None,
      StartCustomData = \<lparr>Raw_Kind = 3, Data = [1]\<rparr>,
      Allowed = \<lparr>Scheme = ''app.read.events'', Contexts = [(''app'', ''myapp'')]\<rparr>,
      AllowedCancel = \<lparr>Scheme = ''app.update.events'', Contexts = [(''app'', ''myapp'')]\<rparr>,
      Cancel = None\<rparr>"

definition closed_event :: Event where
  "closed_event =
     \<lparr>UniqueID = ''bbbbbbbbbbbbbbbbbbbbbbbb'',
      Target = \<lparr>Target_Type = ''app'', Target_Value = ''other''\<rparr>,
      Kind = \<lparr>Kind_Type = ''permission'', Kind_Name = ''app.update''\<rparr>,
      Owner = ''bob'',
      StartTime = 2,
      EndTime = Some 3,
      Event_Error = None,
      StartCustomData = \<lparr>Raw_Kind = 3, Data = []\<rparr>,
      Allowed = \<lparr>Scheme = ''app.read.events'', Contexts = [(''app'', ''other'')]\<rparr>,
      AllowedCancel = \<lparr>Scheme = ''app.update.events'', Contexts = [(''app'', ''other'')]\<rparr>,
      Cancel = None\<rparr>"

definition active_block :: Block where
  "active_block =
     \<lparr>Block_ID = ''cccccccccccccccccccccccc'',
      KindName = ''app.update'',
      OwnerName = [],
      Block_Target = \<lparr>Target_Type = [], Target_Value = []\<rparr>,
      Reason = ''maintenance'',
      Block_StartTime = 4,
      Block_EndTime = None\<rparr>"

definition example_store :: Store where
  "example_store = \<lparr>events = [running_event, closed_event], blocks = [active_block], clock = 5\<rparr>"

definition empty_store :: Store where
  "empty_store = \<lparr>events = [], blocks = [], clock = 0\<rparr>"

text \<open>
  Two callers: an administrator with every permission the handlers ask for, and a user
  whose permissions reach the events of \<^verbatim>\<open>other\<close> only.
\<close>

definition admin :: Token where
  "admin =
     \<lparr>GetUserName = ''admin'',
      Token_Permissions =
        Inr [(PermEventBlockRead, (''global'', [])),
             (PermEventBlockAdd, (''global'', [])),
             (PermEventBlockRemove, (''global'', [])),
             (PermNamed ''app.read.events'', (''global'', [])),
             (PermNamed ''app.update.events'', (''global'', []))]\<rparr>"

definition bob :: Token where
  "bob =
     \<lparr>GetUserName = ''bob'',
      Token_Permissions =
        Inr [(PermNamed ''app.read.events'', (''app'', ''other'')),
             (PermNamed ''app.update.events'', (''app'', ''other''))]\<rparr>"

definition request :: "string \<Rightarrow> (string \<times> string) list \<Rightarrow> Request" where
  "request uuid form =
     \<lparr>URL_Query = [('':uuid'', uuid)], Form = form, Request_RemoteAddr = ''10.0.0.1''\<rparr>"

section \<open>Facts used below\<close>

lemmas handler_splits = sum.splits option.splits prod.splits if_splits

lemmas example_defs =
  example_engine_def spec_engine_def example_env_def example_store_def empty_store_def
  request_def Values_Get_def admin_def bob_def running_event_def closed_event_def
  active_block_def example_SafeGet_def example_Check_def check_perms_def example_Error_def
  example_FullName_def example_satisfied_def example_block_of_def example_filter_of_def
  spec_GetByID_def spec_TryCancel_def spec_List_def spec_GetKinds_def spec_ListBlocks_def
  spec_New_def spec_Done_def spec_AddBlock_def spec_RemoveBlock_def Block_matches_def
  Filter_matches_def Running_def Active_def fresh_id_def
  StatusBadRequest_def StatusNotFound_def StatusNoContent_def
  new_response_def WriteHeader_def Header_Add_def Let_def

text \<open>The filter writes the bytes of \<^verbatim>\<open>StartCustomData\<close> and nothing else.\<close>

lemma suppress_frame:
  "\<exists>d. snd (suppressSensitiveEnvs env e) = e\<lparr>StartCustomData := (StartCustomData e)\<lparr>Data := d\<rparr>\<rparr>"
proof (cases "suppressSensitiveEnvs env e = (None, e) \<or> (\<exists>x. suppressSensitiveEnvs env e = (Some x, e))")
  case True
  have "e = e\<lparr>StartCustomData := (StartCustomData e)\<lparr>Data := Data (StartCustomData e)\<rparr>\<rparr>"
    by simp
  with True show ?thesis by (metis snd_conv)
next
  case False
  then show ?thesis
    by (auto simp: suppressSensitiveEnvs_def Let_def split: handler_splits)
qed

lemma suppress_Allowed: "Allowed (snd (suppressSensitiveEnvs env e)) = Allowed e"
proof -
  obtain d where
    "snd (suppressSensitiveEnvs env e) = e\<lparr>StartCustomData := (StartCustomData e)\<lparr>Data := d\<rparr>\<rparr>"
    using suppress_frame by blast
  then show ?thesis by simp
qed

text \<open>The filter does rewrite a deploy event: the frame property is not that of the identity.\<close>

lemma suppress_running_event:
  "suppressSensitiveEnvs example_env running_event =
     (None, running_event\<lparr>StartCustomData := \<lparr>Raw_Kind = 3, Data = [3]\<rparr>\<rparr>)"
  by (simp add: suppressSensitiveEnvs_def example_env_def running_event_def example_FullName_def
        example_Unmarshal_def example_Marshal_def example_Suppress_def example_app_def)

lemma suppressAll_image:
  "suppressAll env evs = Inr es \<Longrightarrow> e' \<in> set es \<Longrightarrow>
   \<exists>e0 \<in> set evs. e' = snd (suppressSensitiveEnvs env e0)"
proof (induction evs arbitrary: es)
  case Nil
  then show ?case by simp
next
  case (Cons a evs)
  then show ?case
    by (auto split: prod.splits option.splits sum.splits)
qed

lemma spec_List_satisfied:
  "spec_List satisfied s f = Inr evs \<Longrightarrow> e0 \<in> set evs \<Longrightarrow> satisfied (Permissions f) (Allowed e0)"
  by (auto simp: spec_List_def)

text \<open>The lookup of the specification fails exactly on the identifiers that are not stored.\<close>

lemma spec_GetByID_unknown:
  "i \<notin> UniqueID ` set (events s) \<Longrightarrow> spec_GetByID s i = Inl ErrEventNotFound"
  by (auto simp: spec_GetByID_def find_None_iff split: option.splits)

text \<open>With \<^verbatim>\<open>active=false\<close> the listing of the specification holds inactive blocks only.\<close>

lemma spec_ListBlocks_inactive:
  "spec_ListBlocks s (Some False) = Inr bs \<Longrightarrow> b \<in> set bs \<Longrightarrow> \<not> Active b"
  by (auto simp: spec_ListBlocks_def)

text \<open>When \<^verbatim>\<open>eventList\<close> encodes events, they are the filtered result of the query it ran.\<close>

lemma eventList_body:
  assumes "Body (response (eventList eng env s r t)) = Some (Events es)"
  shows "\<exists>f0 ps evs.
           ParseInput_Filter env r = Inr f0 \<and> Token_Permissions t = Inr ps \<and>
           event_List eng s
             ((PruneUserValues env (LoadKindNames env f0 (Form r)))\<lparr>Permissions := ps\<rparr>) = Inr evs \<and>
           suppressAll env evs = Inr es"
  using assms
  by (auto simp: eventList_def Let_def new_response_def WriteHeader_def Header_Add_def
           split: handler_splits)

section \<open>Authorization scoping\<close>

text \<open>Outside StartCustomData the filter returns the event it was given.\<close>

lemma suppress_restore:
  "(snd (suppressSensitiveEnvs env e))\<lparr>StartCustomData := StartCustomData e\<rparr> = e"
proof -
  obtain d where
    "snd (suppressSensitiveEnvs env e) = e\<lparr>StartCustomData := (StartCustomData e)\<lparr>Data := d\<rparr>\<rparr>"
    using suppress_frame by blast
  then show ?thesis by simp
qed

text \<open>
  When \<^verbatim>\<open>eventInfo\<close> encodes an event, it is the filtered copy of the event the lookup
  returned, and the predicate held for that event.
\<close>

lemma eventInfo_body:
  assumes "Body (response (eventInfo eng env s r t)) = Some (One_Event e')"
  shows "\<exists>e scheme.
           event_GetByID eng s (bson_ObjectIdHex env (Values_Get (URL_Query r) '':uuid'')) = Inr e \<and>
           permission_SafeGet env (Scheme (Allowed e)) = Inr scheme \<and>
           permission_Check env t scheme (Contexts (Allowed e)) \<and>
           e' = snd (suppressSensitiveEnvs env e)"
  using assms
  by (auto simp: eventInfo_def Let_def new_response_def Header_Add_def split: handler_splits)

text \<open>
  C2: when the scheme of an event's Allowed descriptor resolves and the authorization
  predicate is false for the caller, \<^verbatim>\<open>eventInfo\<close> on that event returns
  \<^verbatim>\<open>permission.ErrUnauthorized\<close> and writes nothing to the response. Whatever
  \<^verbatim>\<open>eventInfo\<close> encodes is the event the lookup returned, redacted at most in its
  StartCustomData, and the predicate holds for the encoded event's own Allowed descriptor;
  so no request makes \<^verbatim>\<open>eventInfo\<close> encode an event the predicate refuses, nor a
  redacted copy of it. With the listing of the specification, whose permission context
  admits no descriptor the predicate refuses, \<^verbatim>\<open>eventList\<close> never encodes that event,
  nor a redacted copy of it, whatever the other filter fields are.
\<close>

theorem unauthorized_event_never_disclosed:
  "(\<forall>e scheme.
      bson_IsObjectIdHex env (Values_Get (URL_Query r) '':uuid'') \<and>
      event_GetByID eng s (bson_ObjectIdHex env (Values_Get (URL_Query r) '':uuid'')) = Inr e \<and>
      permission_SafeGet env (Scheme (Allowed e)) = Inr scheme \<and>
      \<not> permission_Check env t scheme (Contexts (Allowed e)) \<longrightarrow>
      result (eventInfo eng env s r t) = Some ErrUnauthorized \<and>
      response (eventInfo eng env s r t) = \<lparr>Status = None, Header = [], Body = None\<rparr>) \<and>
   (\<forall>e'. Body (response (eventInfo eng env s r t)) = Some (One_Event e') \<longrightarrow>
      (\<exists>e scheme.
         event_GetByID eng s (bson_ObjectIdHex env (Values_Get (URL_Query r) '':uuid'')) = Inr e \<and>
         e' = snd (suppressSensitiveEnvs env e) \<and>
         e'\<lparr>StartCustomData := StartCustomData e\<rparr> = e \<and>
         permission_SafeGet env (Scheme (Allowed e)) = Inr scheme \<and>
         permission_Check env t scheme (Contexts (Allowed e)) \<and>
         permission_SafeGet env (Scheme (Allowed e')) = Inr scheme \<and>
         permission_Check env t scheme (Contexts (Allowed e')))) \<and>
   (\<forall>e scheme e'.
      permission_SafeGet env (Scheme (Allowed e)) = Inr scheme \<and>
      \<not> permission_Check env t scheme (Contexts (Allowed e)) \<and>
      Body (response (eventInfo eng env s r t)) = Some (One_Event e') \<longrightarrow>
      e' \<noteq> e \<and> e'\<lparr>StartCustomData := StartCustomData e\<rparr> \<noteq> e) \<and>
   (\<forall>e scheme es.
      permission_SafeGet env (Scheme (Allowed e)) = Inr scheme \<and>
      \<not> permission_Check env t scheme (Contexts (Allowed e)) \<and>
      (\<forall>ps. Token_Permissions t = Inr ps \<and> satisfied ps (Allowed e) \<longrightarrow>
            permission_Check env t scheme (Contexts (Allowed e))) \<and>
      Body (response (eventList (eng\<lparr>event_List := spec_List satisfied\<rparr>) env s r t))
        = Some (Events es) \<longrightarrow>
      (\<forall>e' \<in> set es. e'\<lparr>StartCustomData := StartCustomData e\<rparr> \<noteq> e))"
proof (intro conjI allI impI)
  fix e scheme
  assume "bson_IsObjectIdHex env (Values_Get (URL_Query r) '':uuid'') \<and>
      event_GetByID eng s (bson_ObjectIdHex env (Values_Get (URL_Query r) '':uuid'')) = Inr e \<and>
      permission_SafeGet env (Scheme (Allowed e)) = Inr scheme \<and>
      \<not> permission_Check env t scheme (Contexts (Allowed e))"
  then show "result (eventInfo eng env s r t) = Some ErrUnauthorized"
    and "response (eventInfo eng env s r t) = \<lparr>Status = None, Header = [], Body = None\<rparr>"
    by (simp_all add: eventInfo_def Let_def new_response_def)
next
  fix e' :: Event
  assume "Body (response (eventInfo eng env s r t)) = Some (One_Event e')"
  then obtain e scheme where
        g: "event_GetByID eng s (bson_ObjectIdHex env (Values_Get (URL_Query r) '':uuid'')) = Inr e"
    and sg: "permission_SafeGet env (Scheme (Allowed e)) = Inr scheme"
    and ck: "permission_Check env t scheme (Contexts (Allowed e))"
    and e': "e' = snd (suppressSensitiveEnvs env e)"
    using eventInfo_body by blast
  have al: "Allowed e' = Allowed e"
    using e' suppress_Allowed by simp
  have rs: "e'\<lparr>StartCustomData := StartCustomData e\<rparr> = e"
    using e' suppress_restore by simp
  from g e' rs sg ck al
  show "\<exists>e scheme.
         event_GetByID eng s (bson_ObjectIdHex env (Values_Get (URL_Query r) '':uuid'')) = Inr e \<and>
         e' = snd (suppressSensitiveEnvs env e) \<and>
         e'\<lparr>StartCustomData := StartCustomData e\<rparr> = e \<and>
         permission_SafeGet env (Scheme (Allowed e)) = Inr scheme \<and>
         permission_Check env t scheme (Contexts (Allowed e)) \<and>
         permission_SafeGet env (Scheme (Allowed e')) = Inr scheme \<and>
         permission_Check env t scheme (Contexts (Allowed e'))"
    by auto
next
  fix e :: Event and scheme and e' :: Event
  assume a: "permission_SafeGet env (Scheme (Allowed e)) = Inr scheme \<and>
      \<not> permission_Check env t scheme (Contexts (Allowed e)) \<and>
      Body (response (eventInfo eng env s r t)) = Some (One_Event e')"
  then obtain e0 scheme0 where
        sg: "permission_SafeGet env (Scheme (Allowed e0)) = Inr scheme0"
    and ck: "permission_Check env t scheme0 (Contexts (Allowed e0))"
    and e': "e' = snd (suppressSensitiveEnvs env e0)"
    using eventInfo_body by blast
  have al: "Allowed e' = Allowed e0"
    using e' suppress_Allowed by simp
  have differ: "Allowed e' \<noteq> Allowed e"
  proof
    assume "Allowed e' = Allowed e"
    with al have "Allowed e0 = Allowed e" by simp
    with sg ck a show False by simp
  qed
  show "e' \<noteq> e"
    using differ by auto
  show "e'\<lparr>StartCustomData := StartCustomData e\<rparr> \<noteq> e"
  proof
    assume eq: "e'\<lparr>StartCustomData := StartCustomData e\<rparr> = e"
    have "Allowed e = Allowed (e'\<lparr>StartCustomData := StartCustomData e\<rparr>)"
      using eq by simp
    then show False using differ by simp
  qed
next
  fix e :: Event and scheme es
  assume a: "permission_SafeGet env (Scheme (Allowed e)) = Inr scheme \<and>
      \<not> permission_Check env t scheme (Contexts (Allowed e)) \<and>
      (\<forall>ps. Token_Permissions t = Inr ps \<and> satisfied ps (Allowed e) \<longrightarrow>
            permission_Check env t scheme (Contexts (Allowed e))) \<and>
      Body (response (eventList (eng\<lparr>event_List := spec_List satisfied\<rparr>) env s r t))
        = Some (Events es)"
  from a obtain f0 ps evs where
        ps: "Token_Permissions t = Inr ps"
    and ls: "spec_List satisfied s
               ((PruneUserValues env (LoadKindNames env f0 (Form r)))\<lparr>Permissions := ps\<rparr>) = Inr evs"
    and su: "suppressAll env evs = Inr es"
    using eventList_body [of "eng\<lparr>event_List := spec_List satisfied\<rparr>" env s r t es] by auto
  from a ps have ns: "\<not> satisfied ps (Allowed e)" by blast
  show "\<forall>e' \<in> set es. e'\<lparr>StartCustomData := StartCustomData e\<rparr> \<noteq> e"
  proof
    fix e' :: Event
    assume "e' \<in> set es"
    with su obtain e0 where e0: "e0 \<in> set evs" and e': "e' = snd (suppressSensitiveEnvs env e0)"
      using suppressAll_image by blast
    from ls e0 have sat: "satisfied ps (Allowed e0)"
      using spec_List_satisfied by fastforce
    show "e'\<lparr>StartCustomData := StartCustomData e\<rparr> \<noteq> e"
    proof
      assume eq: "e'\<lparr>StartCustomData := StartCustomData e\<rparr> = e"
      have "Allowed e = Allowed (e'\<lparr>StartCustomData := StartCustomData e\<rparr>)"
        using eq by simp
      also have "\<dots> = Allowed e'" by simp
      also have "\<dots> = Allowed e0" using e' suppress_Allowed by simp
      finally show False using sat ns by simp
    qed
  qed
qed

theorem unauthorized_event_never_disclosed_witness:
  "bson_IsObjectIdHex example_env
     (Values_Get (URL_Query (request ''aaaaaaaaaaaaaaaaaaaaaaaa'' [])) '':uuid'') \<and>
   event_GetByID example_engine example_store
     (bson_ObjectIdHex example_env
        (Values_Get (URL_Query (request ''aaaaaaaaaaaaaaaaaaaaaaaa'' [])) '':uuid''))
     = Inr running_event \<and>
   permission_SafeGet example_env (Scheme (Allowed running_event))
     = Inr (PermNamed ''app.read.events'') \<and>
   \<not> permission_Check example_env bob (PermNamed ''app.read.events'')
         (Contexts (Allowed running_event)) \<and>
   result (eventInfo example_engine example_env example_store
             (request ''aaaaaaaaaaaaaaaaaaaaaaaa'' []) bob) = Some ErrUnauthorized \<and>
   Body (response (eventInfo example_engine example_env example_store
                     (request ''aaaaaaaaaaaaaaaaaaaaaaaa'' []) bob)) = None \<and>
   Body (response (eventInfo example_engine example_env example_store
                     (request ''aaaaaaaaaaaaaaaaaaaaaaaa'' []) admin))
     = Some (One_Event (running_event\<lparr>StartCustomData := \<lparr>Raw_Kind = 3, Data = [3]\<rparr>\<rparr>)) \<and>
   permission_Check example_env admin (PermNamed ''app.read.events'')
     (Contexts (Allowed (running_event\<lparr>StartCustomData := \<lparr>Raw_Kind = 3, Data = [3]\<rparr>\<rparr>))) \<and>
   Body (response (eventInfo example_engine example_env example_store
                     (request ''bbbbbbbbbbbbbbbbbbbbbbbb'' []) bob))
     = Some (One_Event closed_event) \<and>
   closed_event \<noteq> running_event \<and>
   Body (response (eventList example_engine example_env example_store (request [] []) bob))
     = Some (Events [closed_event]) \<and>
   closed_event\<lparr>StartCustomData := StartCustomData running_event\<rparr> \<noteq> running_event"
proof -
  let ?red = "running_event\<lparr>StartCustomData := \<lparr>Raw_Kind = 3, Data = [3]\<rparr>\<rparr>"
  have h1: "bson_IsObjectIdHex example_env
     (Values_Get (URL_Query (request ''aaaaaaaaaaaaaaaaaaaaaaaa'' [])) '':uuid'')"
    by (simp add: example_defs)
  have h2: "event_GetByID example_engine example_store
     (bson_ObjectIdHex example_env
        (Values_Get (URL_Query (request ''aaaaaaaaaaaaaaaaaaaaaaaa'' [])) '':uuid''))
     = Inr running_event"
    by (simp add: example_defs)
  have h3: "permission_SafeGet example_env (Scheme (Allowed running_event))
     = Inr (PermNamed ''app.read.events'')"
    by (simp add: example_defs)
  have h4: "\<not> permission_Check example_env bob (PermNamed ''app.read.events'')
         (Contexts (Allowed running_event))"
    by (simp add: example_defs)
  have h5: "\<forall>ps. Token_Permissions bob = Inr ps \<and> example_satisfied ps (Allowed running_event) \<longrightarrow>
         permission_Check example_env bob (PermNamed ''app.read.events'')
           (Contexts (Allowed running_event))"
    by (simp add: example_defs)
  have eng: "example_engine\<lparr>event_List := spec_List example_satisfied\<rparr> = example_engine"
    by (simp add: example_engine_def spec_engine_def)
  have h6: "Body (response (eventList (example_engine\<lparr>event_List := spec_List example_satisfied\<rparr>)
                     example_env example_store (request [] []) bob))
     = Some (Events [closed_event])"
    unfolding eng
    by (simp add: eventList_def suppressSensitiveEnvs_def example_defs)
  have h7: "Body (response (eventInfo example_engine example_env example_store
                     (request ''aaaaaaaaaaaaaaaaaaaaaaaa'' []) admin)) = Some (One_Event ?red)"
    by (simp add: eventInfo_def suppressSensitiveEnvs_def example_Unmarshal_def
          example_Marshal_def example_Suppress_def example_app_def example_defs)
  have h8: "Body (response (eventInfo example_engine example_env example_store
                     (request ''bbbbbbbbbbbbbbbbbbbbbbbb'' []) bob)) = Some (One_Event closed_event)"
    by (simp add: eventInfo_def suppressSensitiveEnvs_def example_defs)
  have h9: "permission_SafeGet example_env (Scheme (Allowed ?red))
     = Inr (PermNamed ''app.read.events'')"
    by (simp add: example_defs)
  note th = unauthorized_event_never_disclosed
              [of example_env _ example_engine example_store _ example_satisfied]
  from th [of "request ''aaaaaaaaaaaaaaaaaaaaaaaa'' []" admin,
           THEN conjunct2, THEN conjunct1, rule_format, OF h7] h9
  have c2: "permission_Check example_env admin (PermNamed ''app.read.events'')
              (Contexts (Allowed ?red))"
    by auto
  from th [of "request ''bbbbbbbbbbbbbbbbbbbbbbbb'' []" bob,
           THEN conjunct2, THEN conjunct2, THEN conjunct1, rule_format,
           of running_event "PermNamed ''app.read.events''" closed_event] h3 h4 h8
  have c3: "closed_event \<noteq> running_event" by blast
  from th [of "request ''aaaaaaaaaaaaaaaaaaaaaaaa'' []" bob, THEN conjunct1, rule_format,
           of running_event "PermNamed ''app.read.events''"]
       th [of "request [] []" bob, THEN conjunct2, THEN conjunct2, THEN conjunct2, rule_format,
           of running_event "PermNamed ''app.read.events''" "[closed_event]"]
       h1 h2 h3 h4 h5 h6 h7 h8 c2 c3 eng
  show ?thesis by simp
qed

section \<open>Failures and statuses\<close>



text \<open>
  C4: when the query a listing handler ran returned no element, the handler returns no
  error and a response with status 204, no header and no body; this holds for the event
  list, the kind list and the block list.
\<close>

theorem empty_result_no_content:
  "(\<forall>f. Call_List f (Inr []) \<in> set (calls (eventList eng env s r t)) \<longrightarrow>
        result (eventList eng env s r t) = None \<and>
        response (eventList eng env s r t) = \<lparr>Status = Some 204, Header = [], Body = None\<rparr>) \<and>
   (Call_GetKinds (Inr []) \<in> set (calls (kindList eng env s r t)) \<longrightarrow>
        result (kindList eng env s r t) = None \<and>
        response (kindList eng env s r t) = \<lparr>Status = Some 204, Header = [], Body = None\<rparr>) \<and>
   (\<forall>a. Call_ListBlocks a (Inr []) \<in> set (calls (eventBlockList eng env s r t)) \<longrightarrow>
        result (eventBlockList eng env s r t) = None \<and>
        response (eventBlockList eng env s r t) = \<lparr>Status = Some 204, Header = [], Body = None\<rparr>)"
proof (intro conjI)
  show "\<forall>f. Call_List f (Inr []) \<in> set (calls (eventList eng env s r t)) \<longrightarrow>
        result (eventList eng env s r t) = None \<and>
        response (eventList eng env s r t) = \<lparr>Status = Some 204, Header = [], Body = None\<rparr>"
    by (auto simp: eventList_def Let_def StatusNoContent_def new_response_def WriteHeader_def
             split: handler_splits)
  show "Call_GetKinds (Inr []) \<in> set (calls (kindList eng env s r t)) \<longrightarrow>
        result (kindList eng env s r t) = None \<and>
        response (kindList eng env s r t) = \<lparr>Status = Some 204, Header = [], Body = None\<rparr>"
    by (auto simp: kindList_def Let_def StatusNoContent_def new_response_def WriteHeader_def
             split: handler_splits)
  show "\<forall>a. Call_ListBlocks a (Inr []) \<in> set (calls (eventBlockList eng env s r t)) \<longrightarrow>
        result (eventBlockList eng env s r t) = None \<and>
        response (eventBlockList eng env s r t) = \<lparr>Status = Some 204, Header = [], Body = None\<rparr>"
    by (auto simp: eventBlockList_def Let_def StatusNoContent_def new_response_def WriteHeader_def
             split: handler_splits)
qed

theorem empty_result_no_content_witness:
  "Call_GetKinds (Inr []) \<in> set (calls (kindList example_engine example_env empty_store
                                           (request [] []) admin)) \<and>
   result (kindList example_engine example_env empty_store (request [] []) admin) = None \<and>
   response (kindList example_engine example_env empty_store (request [] []) admin)
     = \<lparr>Status = Some 204, Header = [], Body = None\<rparr> \<and>
   Call_ListBlocks (Some False) (Inr [])
     \<in> set (calls (eventBlockList example_engine example_env example_store
                      (request [] [(''active'', ''false'')]) admin)) \<and>
   result (eventBlockList example_engine example_env example_store
             (request [] [(''active'', ''false'')]) admin) = None \<and>
   response (eventBlockList example_engine example_env example_store
               (request [] [(''active'', ''false'')]) admin)
     = \<lparr>Status = Some 204, Header = [], Body = None\<rparr> \<and>
   (\<exists>f. Call_List f (Inr [])
          \<in> set (calls (eventList example_engine example_env example_store
                           (request [] [(''ownername'', ''carol'')]) admin))) \<and>
   result (eventList example_engine example_env example_store
             (request [] [(''ownername'', ''carol'')]) admin) = None \<and>
   response (eventList example_engine example_env example_store
               (request [] [(''ownername'', ''carol'')]) admin)
     = \<lparr>Status = Some 204, Header = [], Body = None\<rparr>"
proof -
  have h1: "Call_GetKinds (Inr []) \<in> set (calls (kindList example_engine example_env empty_store
                                           (request [] []) admin))"
    by (simp add: kindList_def example_defs)
  have h2: "Call_ListBlocks (Some False) (Inr [])
     \<in> set (calls (eventBlockList example_engine example_env example_store
                      (request [] [(''active'', ''false'')]) admin))"
    by (simp add: eventBlockList_def ParseBool_def example_defs)
  have h3: "\<exists>f. Call_List f (Inr [])
          \<in> set (calls (eventList example_engine example_env example_store
                           (request [] [(''ownername'', ''carol'')]) admin))"
    by (simp add: eventList_def example_defs)
  then obtain f where h3': "Call_List f (Inr [])
          \<in> set (calls (eventList example_engine example_env example_store
                           (request [] [(''ownername'', ''carol'')]) admin))" ..
  note th = empty_result_no_content [of example_engine example_env _ _ admin]
  from th [THEN conjunct1, rule_format, OF h3']
       th [THEN conjunct2, THEN conjunct1, rule_format, OF h1]
       th [THEN conjunct2, THEN conjunct2, rule_format, OF h2]
       h1 h2 h3
  show ?thesis by simp
qed

section \<open>Validation of the reason\<close>

text \<open>
  C5, as amended: the reason is validated after the checks that precede it. A block
  request whose parsed block has an empty Reason fails and leaves the store as it was,
  with no call to the engine; for a caller the authorization predicate accepts the
  failure is the 400 error "reason is required". A cancellation request with an empty
  reason fails and leaves the store as it was, with no call to \<^verbatim>\<open>TryCancel\<close>; when
  its identifier is that of an event the lookup returns, the failure is the 400 error
  "reason is mandatory".
\<close>

theorem empty_reason_rejected:
  "(\<forall>b. ParseInput_Block env r = Inr b \<and> Reason b = [] \<longrightarrow>
      store (eventBlockAdd eng env s r t) = s \<and>
      result (eventBlockAdd eng env s r t) \<noteq> None \<and>
      (\<forall>c \<in> set (calls (eventBlockAdd eng env s r t)). \<exists>scheme ctxs a. c = Call_Check scheme ctxs a) \<and>
      (permission_Check env t PermEventBlockAdd [] \<longrightarrow>
         result (eventBlockAdd eng env s r t) = Some (HTTP 400 ''reason is required''))) \<and>
   (InputValue env r ''reason'' = [] \<longrightarrow>
      store (eventCancel eng env s r t) = s \<and>
      result (eventCancel eng env s r t) \<noteq> None \<and>
      (\<forall>e reason who x. Call_TryCancel e reason who x \<notin> set (calls (eventCancel eng env s r t))) \<and>
      (\<forall>e. bson_IsObjectIdHex env (Values_Get (URL_Query r) '':uuid'') \<and>
           event_GetByID eng s (bson_ObjectIdHex env (Values_Get (URL_Query r) '':uuid'')) = Inr e \<longrightarrow>
           result (eventCancel eng env s r t) = Some (HTTP 400 ''reason is mandatory'')))"
proof (intro conjI)
  show "\<forall>b. ParseInput_Block env r = Inr b \<and> Reason b = [] \<longrightarrow>
      store (eventBlockAdd eng env s r t) = s \<and>
      result (eventBlockAdd eng env s r t) \<noteq> None \<and>
      (\<forall>c \<in> set (calls (eventBlockAdd eng env s r t)). \<exists>scheme ctxs a. c = Call_Check scheme ctxs a) \<and>
      (permission_Check env t PermEventBlockAdd [] \<longrightarrow>
         result (eventBlockAdd eng env s r t) = Some (HTTP 400 ''reason is required''))"
    by (auto simp: eventBlockAdd_def Let_def StatusBadRequest_def)
  show "InputValue env r ''reason'' = [] \<longrightarrow>
      store (eventCancel eng env s r t) = s \<and>
      result (eventCancel eng env s r t) \<noteq> None \<and>
      (\<forall>e reason who x. Call_TryCancel e reason who x \<notin> set (calls (eventCancel eng env s r t))) \<and>
      (\<forall>e. bson_IsObjectIdHex env (Values_Get (URL_Query r) '':uuid'') \<and>
           event_GetByID eng s (bson_ObjectIdHex env (Values_Get (URL_Query r) '':uuid'')) = Inr e \<longrightarrow>
           result (eventCancel eng env s r t) = Some (HTTP 400 ''reason is mandatory''))"
    by (auto simp: eventCancel_def Let_def StatusBadRequest_def split: sum.splits)
qed

theorem empty_reason_rejected_witness:
  "ParseInput_Block example_env (request [] [(''kindname'', ''app.deploy'')])
     = Inr (example_block_of (request [] [(''kindname'', ''app.deploy'')])) \<and>
   Reason (example_block_of (request [] [(''kindname'', ''app.deploy'')])) = [] \<and>
   permission_Check example_env admin PermEventBlockAdd [] \<and>
   result (eventBlockAdd example_engine example_env example_store
             (request [] [(''kindname'', ''app.deploy'')]) admin)
     = Some (HTTP 400 ''reason is required'') \<and>
   store (eventBlockAdd example_engine example_env example_store
            (request [] [(''kindname'', ''app.deploy'')]) admin) = example_store \<and>
   InputValue example_env (request ''aaaaaaaaaaaaaaaaaaaaaaaa'' []) ''reason'' = [] \<and>
   event_GetByID example_engine example_store
     (bson_ObjectIdHex example_env
        (Values_Get (URL_Query (request ''aaaaaaaaaaaaaaaaaaaaaaaa'' [])) '':uuid''))
     = Inr running_event \<and>
   result (eventCancel example_engine example_env example_store
             (request ''aaaaaaaaaaaaaaaaaaaaaaaa'' []) admin)
     = Some (HTTP 400 ''reason is mandatory'') \<and>
   store (eventCancel example_engine example_env example_store
            (request ''aaaaaaaaaaaaaaaaaaaaaaaa'' []) admin) = example_store"
proof -
  have h1: "ParseInput_Block example_env (request [] [(''kindname'', ''app.deploy'')])
     = Inr (example_block_of (request [] [(''kindname'', ''app.deploy'')])) \<and>
     Reason (example_block_of (request [] [(''kindname'', ''app.deploy'')])) = []"
    by (simp add: example_defs)
  have h2: "permission_Check example_env admin PermEventBlockAdd []"
    by (simp add: example_defs)
  have h3: "InputValue example_env (request ''aaaaaaaaaaaaaaaaaaaaaaaa'' []) ''reason'' = []"
    by (simp add: example_defs)
  have h4: "bson_IsObjectIdHex example_env
              (Values_Get (URL_Query (request ''aaaaaaaaaaaaaaaaaaaaaaaa'' [])) '':uuid'') \<and>
            event_GetByID example_engine example_store
              (bson_ObjectIdHex example_env
                 (Values_Get (URL_Query (request ''aaaaaaaaaaaaaaaaaaaaaaaa'' [])) '':uuid''))
              = Inr running_event"
    by (simp add: example_defs)
  note th = empty_reason_rejected [of example_env _ example_engine example_store admin]
  note a = th [THEN conjunct1, rule_format, OF h1]
  note c = th [THEN conjunct2, rule_format, OF h3]
  from a [THEN conjunct1]
       a [THEN conjunct2, THEN conjunct2, THEN conjunct2, rule_format, OF h2]
       c [THEN conjunct1]
       c [THEN conjunct2, THEN conjunct2, THEN conjunct2, rule_format, OF h4]
       h1 h2 h3 h4
  show ?thesis by simp
qed

text \<open>
  The error is not the 400 of the reason for every input: a caller the predicate refuses
  gets \<^verbatim>\<open>permission.ErrUnauthorized\<close> from \<^verbatim>\<open>eventBlockAdd\<close>, and a cancellation of
  an identifier that is not stored gets the 404 of the lookup, each with an empty reason.
\<close>

theorem empty_reason_rejected_counterexample:
  "ParseInput_Block example_env (request [] []) = Inr (example_block_of (request [] [])) \<and>
   Reason (example_block_of (request [] [])) = [] \<and>
   result (eventBlockAdd example_engine example_env example_store (request [] []) bob)
     = Some ErrUnauthorized \<and>
   result (eventBlockAdd example_engine example_env example_store (request [] []) bob)
     \<noteq> Some (HTTP 400 ''reason is required'') \<and>
   InputValue example_env (request ''dddddddddddddddddddddddd'' []) ''reason'' = [] \<and>
   result (eventCancel example_engine example_env example_store
             (request ''dddddddddddddddddddddddd'' []) admin)
     = Some (HTTP 404 ''event not found'') \<and>
   result (eventCancel example_engine example_env example_store
             (request ''dddddddddddddddddddddddd'' []) admin)
     \<noteq> Some (HTTP 400 ''reason is mandatory'')"
  by (simp add: eventBlockAdd_def eventCancel_def example_defs)

text \<open>
  C9: in \<^verbatim>\<open>eventCancel\<close>, for a request whose identifier is that of an event the lookup
  returns and whose reason is empty, the result is the 400 error "reason is mandatory",
  no call to the authorization predicate is made, and the outcome is the same whatever
  the predicate is.
\<close>

theorem eventCancel_reason_checked_before_authorization:
  assumes "bson_IsObjectIdHex env (Values_Get (URL_Query r) '':uuid'')"
      and "event_GetByID eng s (bson_ObjectIdHex env (Values_Get (URL_Query r) '':uuid'')) = Inr e"
      and "InputValue env r ''reason'' = []"
  shows "result (eventCancel eng env s r t) = Some (HTTP 400 ''reason is mandatory'') \<and>
         (\<forall>scheme ctxs a. Call_Check scheme ctxs a \<notin> set (calls (eventCancel eng env s r t))) \<and>
         eventCancel eng (env\<lparr>permission_Check := check\<rparr>) s r t = eventCancel eng env s r t"
  using assms by (simp add: eventCancel_def Let_def StatusBadRequest_def)

theorem eventCancel_reason_checked_before_authorization_witness:
  "bson_IsObjectIdHex example_env
     (Values_Get (URL_Query (request ''aaaaaaaaaaaaaaaaaaaaaaaa'' [(''reason'', [])])) '':uuid'') \<and>
   event_GetByID example_engine example_store
     (bson_ObjectIdHex example_env
        (Values_Get (URL_Query (request ''aaaaaaaaaaaaaaaaaaaaaaaa'' [(''reason'', [])])) '':uuid''))
     = Inr running_event \<and>
   InputValue example_env (request ''aaaaaaaaaaaaaaaaaaaaaaaa'' [(''reason'', [])]) ''reason'' = [] \<and>
   \<not> permission_Check example_env bob (PermNamed ''app.update.events'')
         (Contexts (AllowedCancel running_event)) \<and>
   result (eventCancel example_engine example_env example_store
             (request ''aaaaaaaaaaaaaaaaaaaaaaaa'' [(''reason'', [])]) bob)
     = Some (HTTP 400 ''reason is mandatory'') \<and>
   calls (eventCancel example_engine example_env example_store
            (request ''aaaaaaaaaaaaaaaaaaaaaaaa'' [(''reason'', [])]) bob)
     = [Call_GetByID ''aaaaaaaaaaaaaaaaaaaaaaaa'' (Inr running_event)]"
proof -
  have h1: "bson_IsObjectIdHex example_env
     (Values_Get (URL_Query (request ''aaaaaaaaaaaaaaaaaaaaaaaa'' [(''reason'', [])])) '':uuid'')"
    by (simp add: example_defs)
  have h2: "event_GetByID example_engine example_store
     (bson_ObjectIdHex example_env
        (Values_Get (URL_Query (request ''aaaaaaaaaaaaaaaaaaaaaaaa'' [(''reason'', [])])) '':uuid''))
     = Inr running_event"
    by (simp add: example_defs)
  have h3: "InputValue example_env (request ''aaaaaaaaaaaaaaaaaaaaaaaa'' [(''reason'', [])]) ''reason'' = []"
    by (simp add: example_defs)
  have h4: "\<not> permission_Check example_env bob (PermNamed ''app.update.events'')
         (Contexts (AllowedCancel running_event))"
    by (simp add: example_defs)
  have h5: "calls (eventCancel example_engine example_env example_store
            (request ''aaaaaaaaaaaaaaaaaaaaaaaa'' [(''reason'', [])]) bob)
     = [Call_GetByID ''aaaaaaaaaaaaaaaaaaaaaaaa'' (Inr running_event)]"
    by (simp add: eventCancel_def example_defs)
  from eventCancel_reason_checked_before_authorization [OF h1 h2 h3, of bob] h1 h2 h3 h4 h5
  show ?thesis by simp
qed

section \<open>Cancellation of an unknown event\<close>

text \<open>
  C6: in \<^verbatim>\<open>eventCancel\<close>, when the identifier is a well-formed object id and the lookup
  \<^verbatim>\<open>GetByID\<close> fails, the result is the 404 error carrying the lookup's message, not the
  400 error of \<^verbatim>\<open>ErrNotCancelable\<close>; \<^verbatim>\<open>TryCancel\<close> is not called and the store is
  left as it was.
\<close>

theorem eventCancel_unknown_event_not_found:
  assumes "bson_IsObjectIdHex env (Values_Get (URL_Query r) '':uuid'')"
      and "event_GetByID eng s (bson_ObjectIdHex env (Values_Get (URL_Query r) '':uuid'')) = Inl err"
  shows "result (eventCancel eng env s r t) = Some (HTTP 404 (Error env err)) \<and>
         result (eventCancel eng env s r t) \<noteq> Some (HTTP 400 (Error env ErrNotCancelable)) \<and>
         (\<forall>e reason who x. Call_TryCancel e reason who x \<notin> set (calls (eventCancel eng env s r t))) \<and>
         store (eventCancel eng env s r t) = s"
  using assms by (simp add: eventCancel_def Let_def StatusNotFound_def)

theorem eventCancel_unknown_event_not_found_witness:
  "''dddddddddddddddddddddddd'' \<notin> UniqueID ` set (events example_store) \<and>
   bson_IsObjectIdHex example_env
     (Values_Get (URL_Query (request ''dddddddddddddddddddddddd'' [(''reason'', ''stop'')])) '':uuid'') \<and>
   event_GetByID example_engine example_store
     (bson_ObjectIdHex example_env
        (Values_Get (URL_Query (request ''dddddddddddddddddddddddd'' [(''reason'', ''stop'')])) '':uuid''))
     = Inl ErrEventNotFound \<and>
   result (eventCancel example_engine example_env example_store
             (request ''dddddddddddddddddddddddd'' [(''reason'', ''stop'')]) admin)
     = Some (HTTP 404 ''event not found'') \<and>
   store (eventCancel example_engine example_env example_store
            (request ''dddddddddddddddddddddddd'' [(''reason'', ''stop'')]) admin) = example_store"
proof -
  have h0: "''dddddddddddddddddddddddd'' \<notin> UniqueID ` set (events example_store)"
    by (simp add: example_defs)
  have h1: "bson_IsObjectIdHex example_env
     (Values_Get (URL_Query (request ''dddddddddddddddddddddddd'' [(''reason'', ''stop'')])) '':uuid'')"
    by (simp add: example_defs)
  have h2: "event_GetByID example_engine example_store
     (bson_ObjectIdHex example_env
        (Values_Get (URL_Query (request ''dddddddddddddddddddddddd'' [(''reason'', ''stop'')])) '':uuid''))
     = Inl ErrEventNotFound"
    by (simp add: example_defs)
  have e: "Error example_env ErrEventNotFound = ''event not found''"
    by (simp add: example_env_def example_Error_def)
  from eventCancel_unknown_event_not_found [OF h1 h2, of admin] h0 h1 h2 e
  show ?thesis by simp
qed

section \<open>The audit event of the block handlers\<close>

text \<open>
  C7: in \<^verbatim>\<open>eventBlockAdd\<close> and \<^verbatim>\<open>eventBlockRemove\<close>, whenever \<^verbatim>\<open>event.New\<close>
  returned an event, the last call of the handler is \<^verbatim>\<open>Done\<close> on that event (in
  \<^verbatim>\<open>eventBlockAdd\<close> with the target value set from the block) with the error the
  handler returns, and the store the handler leaves is the one \<^verbatim>\<open>Done\<close> produced; so
  it is when \<^verbatim>\<open>AddBlock\<close> or \<^verbatim>\<open>RemoveBlock\<close> returned an error.
\<close>

theorem block_handlers_always_call_Done:
  "(\<forall>opts evt.
      Call_New opts (Inr evt) \<in> set (calls (eventBlockAdd eng env s r t)) \<longrightarrow>
      (\<exists>v s2. last (calls (eventBlockAdd eng env s r t)) =
                 Call_Done (evt\<lparr>Target := (Target evt)\<lparr>Target_Value := v\<rparr>\<rparr>)
                   (result (eventBlockAdd eng env s r t)) \<and>
               store (eventBlockAdd eng env s r t) =
                 Event_Done eng s2 (evt\<lparr>Target := (Target evt)\<lparr>Target_Value := v\<rparr>\<rparr>)
                   (result (eventBlockAdd eng env s r t)))) \<and>
   (\<forall>opts evt.
      Call_New opts (Inr evt) \<in> set (calls (eventBlockRemove eng env s r t)) \<longrightarrow>
      (\<exists>s2. last (calls (eventBlockRemove eng env s r t)) =
               Call_Done evt (result (eventBlockRemove eng env s r t)) \<and>
             store (eventBlockRemove eng env s r t) =
               Event_Done eng s2 evt (result (eventBlockRemove eng env s r t)))) \<and>
   (\<forall>b x. Call_AddBlock b (Some x) \<in> set (calls (eventBlockAdd eng env s r t)) \<longrightarrow>
      (\<exists>evt. last (calls (eventBlockAdd eng env s r t)) = Call_Done evt (Some x))) \<and>
   (\<forall>i x. Call_RemoveBlock i (Some x) \<in> set (calls (eventBlockRemove eng env s r t)) \<longrightarrow>
      (\<exists>evt y. last (calls (eventBlockRemove eng env s r t)) = Call_Done evt (Some y)))"
proof (intro conjI)
  show "\<forall>opts evt.
      Call_New opts (Inr evt) \<in> set (calls (eventBlockAdd eng env s r t)) \<longrightarrow>
      (\<exists>v s2. last (calls (eventBlockAdd eng env s r t)) =
                 Call_Done (evt\<lparr>Target := (Target evt)\<lparr>Target_Value := v\<rparr>\<rparr>)
                   (result (eventBlockAdd eng env s r t)) \<and>
               store (eventBlockAdd eng env s r t) =
                 Event_Done eng s2 (evt\<lparr>Target := (Target evt)\<lparr>Target_Value := v\<rparr>\<rparr>)
                   (result (eventBlockAdd eng env s r t)))"
    by (auto simp: eventBlockAdd_def Let_def split: handler_splits)
  show "\<forall>opts evt.
      Call_New opts (Inr evt) \<in> set (calls (eventBlockRemove eng env s r t)) \<longrightarrow>
      (\<exists>s2. last (calls (eventBlockRemove eng env s r t)) =
               Call_Done evt (result (eventBlockRemove eng env s r t)) \<and>
             store (eventBlockRemove eng env s r t) =
               Event_Done eng s2 evt (result (eventBlockRemove eng env s r t)))"
    by (auto simp: eventBlockRemove_def Let_def split: handler_splits)
  show "\<forall>b x. Call_AddBlock b (Some x) \<in> set (calls (eventBlockAdd eng env s r t)) \<longrightarrow>
      (\<exists>evt. last (calls (eventBlockAdd eng env s r t)) = Call_Done evt (Some x))"
    by (auto simp: eventBlockAdd_def Let_def split: handler_splits)
  show "\<forall>i x. Call_RemoveBlock i (Some x) \<in> set (calls (eventBlockRemove eng env s r t)) \<longrightarrow>
      (\<exists>evt y. last (calls (eventBlockRemove eng env s r t)) = Call_Done evt (Some y))"
    by (auto simp: eventBlockRemove_def Let_def split: handler_splits error.splits)
qed

theorem block_handlers_always_call_Done_witness:
  "(\<exists>opts evt.
      Call_New opts (Inr evt)
        \<in> set (calls (eventBlockRemove example_engine example_env example_store
                         (request ''dddddddddddddddddddddddd'' []) admin)) \<and>
      last (calls (eventBlockRemove example_engine example_env example_store
                     (request ''dddddddddddddddddddddddd'' []) admin))
        = Call_Done evt (Some (HTTP 404 ''active event block not found''))) \<and>
   Call_RemoveBlock ''dddddddddddddddddddddddd''
       (Some (ErrActiveEventBlockNotFound ''dddddddddddddddddddddddd''))
     \<in> set (calls (eventBlockRemove example_engine example_env example_store
                      (request ''dddddddddddddddddddddddd'' []) admin)) \<and>
   result (eventBlockRemove example_engine example_env example_store
             (request ''dddddddddddddddddddddddd'' []) admin)
     = Some (HTTP 404 ''active event block not found'') \<and>
   (\<exists>opts evt v.
      Call_New opts (Inr evt)
        \<in> set (calls (eventBlockAdd example_engine example_env example_store
                         (request [] [(''reason'', ''freeze'')]) admin)) \<and>
      last (calls (eventBlockAdd example_engine example_env example_store
                     (request [] [(''reason'', ''freeze'')]) admin))
        = Call_Done (evt\<lparr>Target := (Target evt)\<lparr>Target_Value := v\<rparr>\<rparr>) None)"
proof -
  let ?rm = "eventBlockRemove example_engine example_env example_store
               (request ''dddddddddddddddddddddddd'' []) admin"
  let ?add = "eventBlockAdd example_engine example_env example_store
                (request [] [(''reason'', ''freeze'')]) admin"
  have r1: "result ?rm = Some (HTTP 404 ''active event block not found'')"
    by (simp add: eventBlockRemove_def example_defs)
  have r2: "Call_RemoveBlock ''dddddddddddddddddddddddd''
              (Some (ErrActiveEventBlockNotFound ''dddddddddddddddddddddddd'')) \<in> set (calls ?rm)"
    by (simp add: eventBlockRemove_def example_defs)
  have r3: "\<exists>opts evt. Call_New opts (Inr evt) \<in> set (calls ?rm)"
    by (simp add: eventBlockRemove_def example_defs)
  then obtain opts evt where n1: "Call_New opts (Inr evt) \<in> set (calls ?rm)" by blast
  note th1 = block_handlers_always_call_Done
               [of example_engine example_env example_store _ admin,
                THEN conjunct2, THEN conjunct1, rule_format, OF n1]
  from th1 r1 have "last (calls ?rm) = Call_Done evt (Some (HTTP 404 ''active event block not found''))"
    by auto
  with n1 have A: "\<exists>opts evt. Call_New opts (Inr evt) \<in> set (calls ?rm) \<and>
      last (calls ?rm) = Call_Done evt (Some (HTTP 404 ''active event block not found''))"
    by blast
  have a1: "result ?add = None"
    by (simp add: eventBlockAdd_def example_defs)
  have a3: "\<exists>opts evt. Call_New opts (Inr evt) \<in> set (calls ?add)"
    by (simp add: eventBlockAdd_def example_defs)
  then obtain opts' evt' where n2: "Call_New opts' (Inr evt') \<in> set (calls ?add)" by blast
  note th2 = block_handlers_always_call_Done
               [of example_engine example_env example_store _ admin,
                THEN conjunct1, rule_format, OF n2]
  from th2 a1 obtain v where
    "last (calls ?add) = Call_Done (evt'\<lparr>Target := (Target evt')\<lparr>Target_Value := v\<rparr>\<rparr>) None"
    by auto
  with n2 have B: "\<exists>opts evt v. Call_New opts (Inr evt) \<in> set (calls ?add) \<and>
      last (calls ?add) = Call_Done (evt\<lparr>Target := (Target evt)\<lparr>Target_Value := v\<rparr>\<rparr>) None"
    by blast
  from A r2 r1 B show ?thesis by blast
qed

section \<open>The frame of the sensitive-data filter\<close>

text \<open>
  C8: \<^verbatim>\<open>suppressSensitiveEnvs\<close> changes nothing of the event but the bytes of its
  StartCustomData; and it returns nil and the event unchanged when suppression is not
  enabled in the configuration, or the kind is not the full name of the app-deploy
  permission, or StartCustomData is empty, or the decoded deploy options have no App.
\<close>

theorem suppressSensitiveEnvs_frame:
  "(\<exists>d. snd (suppressSensitiveEnvs env e) = e\<lparr>StartCustomData := (StartCustomData e)\<lparr>Data := d\<rparr>\<rparr>) \<and>
   ((\<not> fst (config_GetBool env ''events:suppress-sensitive-envs'') \<or>
     Kind_Name (Kind e) \<noteq> FullName env PermAppDeploy \<or>
     Data (StartCustomData e) = [] \<or>
     (\<exists>d. bson_Unmarshal env (Data (StartCustomData e)) = Inr d \<and> DeployOptions_App d = None))
    \<longrightarrow> suppressSensitiveEnvs env e = (None, e))"
  using suppress_frame [of env e]
  by (auto simp: suppressSensitiveEnvs_def Let_def)

theorem suppressSensitiveEnvs_frame_witness:
  "Kind_Name (Kind closed_event) \<noteq> FullName example_env PermAppDeploy \<and>
   suppressSensitiveEnvs example_env closed_event = (None, closed_event) \<and>
   bson_Unmarshal example_env (Data (StartCustomData (running_event\<lparr>StartCustomData := \<lparr>Raw_Kind = 3, Data = [2]\<rparr>\<rparr>)))
     = Inr \<lparr>DeployOptions_App = None, Image = ''v1''\<rparr> \<and>
   suppressSensitiveEnvs example_env (running_event\<lparr>StartCustomData := \<lparr>Raw_Kind = 3, Data = [2]\<rparr>\<rparr>)
     = (None, running_event\<lparr>StartCustomData := \<lparr>Raw_Kind = 3, Data = [2]\<rparr>\<rparr>)"
proof -
  have h1: "Kind_Name (Kind closed_event) \<noteq> FullName example_env PermAppDeploy"
    by (simp add: example_env_def closed_event_def example_FullName_def)
  have h2: "bson_Unmarshal example_env
              (Data (StartCustomData (running_event\<lparr>StartCustomData := \<lparr>Raw_Kind = 3, Data = [2]\<rparr>\<rparr>)))
            = Inr \<lparr>DeployOptions_App = None, Image = ''v1''\<rparr>"
    by (simp add: example_env_def example_Unmarshal_def)
  from suppressSensitiveEnvs_frame [of example_env closed_event, THEN conjunct2] h1
  have A: "suppressSensitiveEnvs example_env closed_event = (None, closed_event)" by blast
  from suppressSensitiveEnvs_frame
         [of example_env "running_event\<lparr>StartCustomData := \<lparr>Raw_Kind = 3, Data = [2]\<rparr>\<rparr>",
          THEN conjunct2] h2
  have B: "suppressSensitiveEnvs example_env (running_event\<lparr>StartCustomData := \<lparr>Raw_Kind = 3, Data = [2]\<rparr>\<rparr>)
     = (None, running_event\<lparr>StartCustomData := \<lparr>Raw_Kind = 3, Data = [2]\<rparr>\<rparr>)"
    by auto
  from h1 A h2 B show ?thesis by blast
qed

section \<open>The active parameter of the block list\<close>

text \<open>
  C10: in \<^verbatim>\<open>eventBlockList\<close>, for a non-empty value of \<^verbatim>\<open>active\<close> that
  \<^verbatim>\<open>strconv.ParseBool\<close> does not accept, the handler does exactly what it does for the
  value \<^verbatim>\<open>false\<close>: every listing it runs is \<^verbatim>\<open>ListBlocks\<close> restricted to inactive
  blocks, and for a caller the authorization predicate accepts the result is that of the
  listing, with no error from the parse.
\<close>

theorem eventBlockList_invalid_active_is_false:
  assumes "InputValue env r ''active'' \<noteq> []"
      and "snd (ParseBool (InputValue env r ''active'')) \<noteq> None"
  shows "eventBlockList eng env s r t =
           eventBlockList eng
             (env\<lparr>InputValue := (\<lambda>r' k. if k = ''active'' then ''false'' else InputValue env r' k)\<rparr>)
             s r t \<and>
         (\<forall>a res. Call_ListBlocks a res \<in> set (calls (eventBlockList eng env s r t)) \<longrightarrow>
                   a = Some False) \<and>
         (permission_Check env t PermEventBlockRead [] \<longrightarrow>
            calls (eventBlockList eng env s r t) =
              [Call_Check PermEventBlockRead [] True,
               Call_ListBlocks (Some False) (event_ListBlocks eng s (Some False))] \<and>
            result (eventBlockList eng env s r t) =
              (case event_ListBlocks eng s (Some False) of
                 Inl err \<Rightarrow> Some err
               | Inr bs \<Rightarrow> if bs = [] then None else json_Encode env (Blocks bs)) \<and>
            Body (response (eventBlockList eng env s r t)) =
              (case event_ListBlocks eng s (Some False) of
                 Inl err \<Rightarrow> None
               | Inr bs \<Rightarrow> if bs = [] then None else Some (Blocks bs)))"
proof -
  have f: "fst (ParseBool (InputValue env r ''active'')) = False"
    using assms(2) by (simp add: ParseBool_def split: if_splits)
  have g: "fst (ParseBool ''false'') = False"
    by (simp add: ParseBool_def)
  show ?thesis
    using assms(1) f g
    by (auto simp: eventBlockList_def Let_def new_response_def WriteHeader_def Header_Add_def
             split: sum.splits)
qed

theorem eventBlockList_invalid_active_is_false_witness:
  "InputValue example_env (request [] [(''active'', ''yes'')]) ''active'' \<noteq> [] \<and>
   snd (ParseBool (InputValue example_env (request [] [(''active'', ''yes'')]) ''active'')) \<noteq> None \<and>
   permission_Check example_env admin PermEventBlockRead [] \<and>
   calls (eventBlockList example_engine example_env example_store
            (request [] [(''active'', ''yes'')]) admin)
     = [Call_Check PermEventBlockRead [] True, Call_ListBlocks (Some False) (Inr [])] \<and>
   result (eventBlockList example_engine example_env example_store
             (request [] [(''active'', ''yes'')]) admin) = None \<and>
   Status (response (eventBlockList example_engine example_env example_store
                       (request [] [(''active'', ''yes'')]) admin)) = Some 204"
proof -
  have h1: "InputValue example_env (request [] [(''active'', ''yes'')]) ''active'' \<noteq> []"
    by (simp add: example_defs)
  have h2: "snd (ParseBool (InputValue example_env (request [] [(''active'', ''yes'')]) ''active'')) \<noteq> None"
    by (simp add: ParseBool_def example_defs)
  have h3: "permission_Check example_env admin PermEventBlockRead []"
    by (simp add: example_defs)
  have h4: "event_ListBlocks example_engine example_store (Some False) = Inr []"
    by (simp add: example_defs)
  have h5: "Status (response (eventBlockList example_engine example_env example_store
                       (request [] [(''active'', ''yes'')]) admin)) = Some 204"
    by (simp add: eventBlockList_def ParseBool_def example_defs)
  from eventBlockList_invalid_active_is_false
         [OF h1 h2, of example_engine example_store admin,
          THEN conjunct2, THEN conjunct2, rule_format, OF h3]
       h1 h2 h3 h4 h5
  show ?thesis by simp
qed

end
